theory Spec2Isabelle
  imports Complex_Main "HOL-Library.Word" "HOL-Library.Log_Nat"
begin

section \<open>Data model (Model.ts as used by Broker.ts and OrionBlockchain.ts)\<close>

text \<open>
  \<^verbatim>\<open>BigNumber\<close> (bignumber.js) is an arbitrary-precision decimal that can also be
  \<^verbatim>\<open>NaN\<close>. A finite value is modelled by the rational it denotes. Every comparison with
  \<^verbatim>\<open>NaN\<close> is false and arithmetic with \<^verbatim>\<open>NaN\<close> gives \<^verbatim>\<open>NaN\<close>, as in the library.
\<close>

datatype BigNumber = BN rat | BNaN

fun isNaN :: "BigNumber \<Rightarrow> bool" where
  "isNaN BNaN = True"
| "isNaN (BN _) = False"

fun plus_bn :: "BigNumber \<Rightarrow> BigNumber \<Rightarrow> BigNumber" where
  "plus_bn (BN a) (BN b) = BN (a + b)"
| "plus_bn _ _ = BNaN"

fun minus_bn :: "BigNumber \<Rightarrow> BigNumber \<Rightarrow> BigNumber" where
  "minus_bn (BN a) (BN b) = BN (a - b)"
| "minus_bn _ _ = BNaN"

fun gt :: "BigNumber \<Rightarrow> BigNumber \<Rightarrow> bool" where
  "gt (BN a) (BN b) = (a > b)"
| "gt _ _ = False"

fun gte :: "BigNumber \<Rightarrow> BigNumber \<Rightarrow> bool" where
  "gte (BN a) (BN b) = (a \<ge> b)"
| "gte _ _ = False"

fun lt :: "BigNumber \<Rightarrow> BigNumber \<Rightarrow> bool" where
  "lt (BN a) (BN b) = (a < b)"
| "lt _ _ = False"

fun eq :: "BigNumber \<Rightarrow> BigNumber \<Rightarrow> bool" where
  "eq (BN a) (BN b) = (a = b)"
| "eq _ _ = False"

datatype Status = PREPARE | ACCEPTED | FILLED | CANCELED | REJECTED

datatype Side = buy | sell

text \<open>
  \<^verbatim>\<open>DbSubOrder\<close>: the persisted sub-order. \<^verbatim>\<open>exchangeOrderId\<close> is optional in the
  source (it is assigned only after the venue accepted the order).
\<close>

record DbSubOrder =
  so_id :: int
  so_symbol :: string
  so_side :: Side
  so_price :: BigNumber
  so_amount :: BigNumber
  so_exchange :: string
  so_exchangeOrderId :: "string option"
  so_timestamp :: int
  so_status :: Status
  so_filledAmount :: BigNumber
  so_sentToAggregator :: bool

record Trade =
  tr_exchange :: string
  tr_exchangeOrderId :: string
  tr_price :: BigNumber
  tr_amount :: BigNumber
  tr_status :: Status

datatype WithdrawStatus = pending | ok | failed | canceled

record Withdraw =
  wd_exchangeWithdrawId :: string
  wd_exchange :: string
  wd_currency :: string
  wd_amount :: BigNumber
  wd_status :: WithdrawStatus

datatype TransactionStatus = PENDING | OK | FAIL

record Transaction =
  tx_transactionHash :: string
  tx_method :: string
  tx_asset :: string
  tx_amount :: BigNumber
  tx_createTime :: int
  tx_status :: TransactionStatus

record SubOrderStatusAccepted =
  ssa_id :: int
  ssa_status :: Status

text \<open>Every \<^verbatim>\<open>throw\<close> of the modelled code is a value of this type.\<close>

datatype error =
    SuborderNotFound int
  | MultipleTrades int
  | TradeSuborderNotFound string string
  | UnexpectedTradeStatus Status
  | PartialTrade int
  | NoBalance string
  | TypeError
  | External string

section \<open>The store\<close>

text \<open>
  Modelled from the spec: the class \<^verbatim>\<open>Db\<close> (src/db/Db.ts) is not among the sources; section 4.1
  of the specification describes it as durable keyed storage for sub-orders, trades,
  withdrawals and transactions, sub-orders keyed by their numeric id. Each table is a list of
  rows in insertion order.
\<close>

record Db =
  subOrders :: "DbSubOrder list"
  trades :: "Trade list"
  withdraws :: "Withdraw list"
  transactions :: "Transaction list"

text \<open>Modelled from the spec: \<^verbatim>\<open>Db.getSubOrderById\<close>, lookup by primary key.\<close>

definition getSubOrderById :: "Db \<Rightarrow> int \<Rightarrow> DbSubOrder option" where
  "getSubOrderById d i = List.find (\<lambda>r. so_id r = i) (subOrders d)"

text \<open>Modelled from the spec: \<^verbatim>\<open>Db.getSubOrder\<close>, lookup by \<^verbatim>\<open>(exchange, exchangeOrderId)\<close>.\<close>

definition getSubOrder :: "Db \<Rightarrow> string \<Rightarrow> string \<Rightarrow> DbSubOrder option" where
  "getSubOrder d ex eoid =
     List.find (\<lambda>r. so_exchange r = ex \<and> so_exchangeOrderId r = Some eoid) (subOrders d)"

text \<open>Modelled from the spec: \<^verbatim>\<open>Db.insertSubOrder\<close> adds a row.\<close>

definition insertSubOrder :: "Db \<Rightarrow> DbSubOrder \<Rightarrow> Db" where
  "insertSubOrder d s = d\<lparr>subOrders := subOrders d @ [s]\<rparr>"

text \<open>Modelled from the spec: \<^verbatim>\<open>Db.updateSubOrder\<close> overwrites the row that has the id.\<close>

definition updateSubOrder :: "Db \<Rightarrow> DbSubOrder \<Rightarrow> Db" where
  "updateSubOrder d s =
     d\<lparr>subOrders := map (\<lambda>r. if so_id r = so_id s then s else r) (subOrders d)\<rparr>"

text \<open>Modelled from the spec: \<^verbatim>\<open>Db.insertTrade\<close> adds a row to the trades.\<close>

definition insertTrade :: "Db \<Rightarrow> Trade \<Rightarrow> Db" where
  "insertTrade d t = d\<lparr>trades := trades d @ [t]\<rparr>"

text \<open>
  Modelled from the spec: \<^verbatim>\<open>Db.getSubOrderTrades\<close>, the trades stored for a venue and a
  venue-assigned order id.
\<close>

definition getSubOrderTrades :: "Db \<Rightarrow> string \<Rightarrow> string \<Rightarrow> Trade list" where
  "getSubOrderTrades d ex eoid =
     filter (\<lambda>t. tr_exchange t = ex \<and> tr_exchangeOrderId t = eoid) (trades d)"

text \<open>
  Modelled from the spec: \<^verbatim>\<open>Db.getPendingTransactions\<close>, the transactions in status
  PENDING.
\<close>

definition getPendingTransactions :: "Db \<Rightarrow> Transaction list" where
  "getPendingTransactions d = filter (\<lambda>t. tx_status t = PENDING) (transactions d)"

text \<open>
  Modelled from the spec: \<^verbatim>\<open>Db.getWithdrawsToCheck\<close>, the withdrawals in status
  pending.
\<close>

definition getWithdrawsToCheck :: "Db \<Rightarrow> Withdraw list" where
  "getWithdrawsToCheck d = filter (\<lambda>w. wd_status w = pending) (withdraws d)"

text \<open>Modelled from the spec: \<^verbatim>\<open>Db.insetTransaction\<close> adds a row to the transactions.\<close>

definition insetTransaction :: "Db \<Rightarrow> Transaction \<Rightarrow> Db" where
  "insetTransaction d t = d\<lparr>transactions := transactions d @ [t]\<rparr>"

text \<open>Modelled from the spec: \<^verbatim>\<open>Db.insertWithdraw\<close> adds a row to the withdrawals.\<close>

definition insertWithdraw :: "Db \<Rightarrow> Withdraw \<Rightarrow> Db" where
  "insertWithdraw d w = d\<lparr>withdraws := withdraws d @ [w]\<rparr>"

section \<open>Numbers, bytes and the external collaborators\<close>

text \<open>
  A JavaScript \<^verbatim>\<open>number\<close> is an IEEE 754 binary64 value: a finite double, modelled by
  the rational it denotes (the two zeros are one value), an infinity, or \<^verbatim>\<open>NaN\<close>.
\<close>

datatype number = Num rat | NaN | PosInf | NegInf

text \<open>The integer nearest to a rational, a tie going to the even one.\<close>

definition roundHalfEven :: "rat \<Rightarrow> int" where
  "roundHalfEven q =
     (let f = \<lfloor>q\<rfloor> in
      if q - of_int f < 1 / 2 then f
      else if q - of_int f > 1 / 2 then f + 1
      else if even f then f else f + 1)"

text \<open>The binary exponent of a positive rational \<open>x\<close>: the \<open>e\<close> with \<open>2^e \<le> x < 2^(e+1)\<close>.\<close>

definition exponentOf :: "rat \<Rightarrow> int" where
  "exponentOf x =
     (let (p, q) = quotient_of x;
          d = bitlen p - bitlen q
      in if 2 powi d \<le> x then d else d - 1)"

text \<open>
  The double nearest to a rational, a tie going to the even significand: a significand of 53
  bits, the exponent of the least normal double \<open>2^-1022\<close> for every value below it (the
  subnormal doubles are the multiples of \<open>2^-1074\<close>), and an infinity when the rounded
  magnitude reaches \<open>2^1024\<close>.
\<close>

definition binary64 :: "rat \<Rightarrow> number" where
  "binary64 x =
     (if x = 0 then Num 0
      else
        let e = max (exponentOf \<bar>x\<bar>) (- 1022);
            ulp = 2 powi (e - 52);
            y = of_int (roundHalfEven (\<bar>x\<bar> / ulp)) * ulp
        in if 2 powi 1024 \<le> y then (if 0 < x then PosInf else NegInf)
           else Num (if 0 < x then y else - y))"

text \<open>\<^verbatim>\<open>BigNumber.toNumber\<close>: the double nearest to the decimal value.\<close>

fun toNumber :: "BigNumber \<Rightarrow> number" where
  "toNumber (BN r) = binary64 r"
| "toNumber BNaN = NaN"

text \<open>The product and the sum of two numbers: the exact result, rounded to a double.\<close>

fun times_number :: "number \<Rightarrow> number \<Rightarrow> number" where
  "times_number (Num a) (Num b) = binary64 (a * b)"
| "times_number NaN _ = NaN"
| "times_number _ NaN = NaN"
| "times_number PosInf (Num b) = (if b = 0 then NaN else if 0 < b then PosInf else NegInf)"
| "times_number NegInf (Num b) = (if b = 0 then NaN else if 0 < b then NegInf else PosInf)"
| "times_number (Num a) PosInf = (if a = 0 then NaN else if 0 < a then PosInf else NegInf)"
| "times_number (Num a) NegInf = (if a = 0 then NaN else if 0 < a then NegInf else PosInf)"
| "times_number PosInf PosInf = PosInf"
| "times_number NegInf NegInf = PosInf"
| "times_number PosInf NegInf = NegInf"
| "times_number NegInf PosInf = NegInf"

fun plus_number :: "number \<Rightarrow> number \<Rightarrow> number" where
  "plus_number (Num a) (Num b) = binary64 (a + b)"
| "plus_number NaN _ = NaN"
| "plus_number _ NaN = NaN"
| "plus_number PosInf NegInf = NaN"
| "plus_number NegInf PosInf = NaN"
| "plus_number PosInf _ = PosInf"
| "plus_number NegInf _ = NegInf"
| "plus_number _ PosInf = PosInf"
| "plus_number _ NegInf = NegInf"

text \<open>
  \<^verbatim>\<open>Math.round\<close> rounds a finite number to the nearest integer, a half towards plus
  infinity, and returns an infinity and \<^verbatim>\<open>NaN\<close> unchanged.
\<close>

fun Math_round :: "number \<Rightarrow> number" where
  "Math_round (Num r) = Num (of_int \<lfloor>r + 1 / 2\<rfloor>)"
| "Math_round NaN = NaN"
| "Math_round PosInf = PosInf"
| "Math_round NegInf = NegInf"

text \<open>The truth value of a number in a condition: zero and \<^verbatim>\<open>NaN\<close> are false.\<close>

fun truthy :: "number \<Rightarrow> bool" where
  "truthy (Num r) = (r \<noteq> 0)"
| "truthy NaN = False"
| "truthy PosInf = True"
| "truthy NegInf = True"

type_synonym byte = "8 word"

text \<open>
  An address, a hash and a signature are hexadecimal strings in the source; each is
  modelled by the byte sequence it denotes (the empty string by the empty sequence).
\<close>

type_synonym address = "byte list"

record BlockchainOrder =
  bo_id :: "byte list"
  bo_senderAddress :: address
  bo_matcherAddress :: address
  bo_baseAsset :: address
  bo_quoteAsset :: address
  bo_matcherFeeAsset :: address
  bo_amount :: number
  bo_price :: number
  bo_matcherFee :: number
  bo_nonce :: number
  bo_expiration :: number
  bo_buySide :: number
  bo_signature :: "byte list"

record SubOrderStatus =
  st_id :: int
  st_status :: "Status option"
  st_filledAmount :: string
  st_blockchainOrder :: "BlockchainOrder option"

record ExchangeWithdrawLimit =
  wl_min :: BigNumber
  wl_fee :: BigNumber

text \<open>The EIP-712 payload that \<^verbatim>\<open>signOrder\<close> hands to \<^verbatim>\<open>signTypedMessage\<close>.\<close>

record TypedData =
  domain_name :: string
  domain_version :: string
  domain_chainId :: int
  domain_salt :: string
  primaryType :: string
  message :: BlockchainOrder

text \<open>
  Every command that the broker gives to an external party (an order submitted to a venue, a
  venue withdrawal, a transaction sent through the gateway, a message to the hub or to the
  front end) is recorded, in order, in the broker's history. What an external party answers,
  to a command or to a query, is a function of the history so far.
\<close>

datatype Call =
    SubmitSubOrder string int string Side BigNumber BigNumber
  | SendToFrontend DbSubOrder
  | SendSubOrderStatus SubOrderStatus
  | Execute string BigNumber string
  | ExchangeWithdraw string string BigNumber address
  | SendBalances "(string \<times> (string \<times> string) list) list"

text \<open>
  The collaborators whose code is outside the repository's sources (bignumber.js, web3,
  eth-sig-util, the token registry of main.ts, the exchange connectors behind
  \<^verbatim>\<open>Connectors\<close>, the blockchain gateway and the hub transport) are parameters. A call
  that can throw answers with a sum, \<open>Inl\<close> being the exception.
\<close>

record Env =
  Date_now :: "Call list \<Rightarrow> int"
  toString :: "BigNumber \<Rightarrow> string"
  keccak256 :: "byte list \<Rightarrow> byte list"
  signTypedMessage :: "byte list \<Rightarrow> TypedData \<Rightarrow> byte list"
  symbolToAddresses :: "string \<Rightarrow> address \<times> address"
  nameToAddress :: "string \<Rightarrow> address"
  submitSubOrder ::
    "Call list \<Rightarrow> string \<Rightarrow> int \<Rightarrow> string \<Rightarrow> Side \<Rightarrow> BigNumber \<Rightarrow> BigNumber \<Rightarrow> error + DbSubOrder"
  sendSubOrderStatus :: "Call list \<Rightarrow> SubOrderStatus \<Rightarrow> error + unit"
  connector_hasWithdraw :: "Call list \<Rightarrow> string \<Rightarrow> error + bool"
  getWithdrawLimit :: "Call list \<Rightarrow> string \<Rightarrow> string \<Rightarrow> error + ExchangeWithdrawLimit option"
  hasWithdraw :: "Call list \<Rightarrow> string \<Rightarrow> bool"
  withdraw :: "Call list \<Rightarrow> string \<Rightarrow> string \<Rightarrow> BigNumber \<Rightarrow> address \<Rightarrow> string option"
  getWalletBalance :: "Call list \<Rightarrow> error + (string \<Rightarrow> BigNumber option)"
  getAllowance :: "Call list \<Rightarrow> string \<Rightarrow> error + BigNumber"
  execute :: "Call list \<Rightarrow> string \<Rightarrow> BigNumber \<Rightarrow> string \<Rightarrow> error + string"
  getLastBalancesJson :: "Call list \<Rightarrow> (string \<times> (string \<times> string) list) list"
  sendBalances :: "Call list \<Rightarrow> (string \<times> (string \<times> string) list) list \<Rightarrow> error + unit"

section \<open>OrionBlockchain.ts\<close>

text \<open>
  \<^verbatim>\<open>longToHex(long) = bytesToHex(Long.fromNumber(long).toBytesBE())\<close>. \<^verbatim>\<open>Long.fromNumber\<close>
  (long.js, signed) maps \<^verbatim>\<open>NaN\<close> to zero, saturates at the ends of the signed 64-bit
  range (an infinity saturates too) and truncates a fraction towards zero.
\<close>

definition Long_fromNumber :: "number \<Rightarrow> 64 word" where
  "Long_fromNumber v =
     (case v of
        NaN \<Rightarrow> 0
      | PosInf \<Rightarrow> 0x7FFFFFFFFFFFFFFF
      | NegInf \<Rightarrow> 0x8000000000000000
      | Num r \<Rightarrow>
          if r \<le> - (2 ^ 63) then 0x8000000000000000
          else if r + 1 \<ge> 2 ^ 63 then 0x7FFFFFFFFFFFFFFF
          else if r < 0 then - word_of_int \<lfloor>- r\<rfloor>
          else word_of_int \<lfloor>r\<rfloor>)"

definition toBytesBE :: "64 word \<Rightarrow> byte list" where
  "toBytesBE w = map (\<lambda>k. ucast (drop_bit (8 * k) w)) [7, 6, 5, 4, 3, 2, 1, 0 :: nat]"

definition longToHex :: "number \<Rightarrow> byte list" where
  "longToHex long = toBytesBE (Long_fromNumber long)"

text \<open>
  \<^verbatim>\<open>Web3.utils.soliditySha3\<close> on hexadecimal strings: the keccak-256 digest of the tightly
  packed bytes of its arguments.
\<close>

definition soliditySha3 :: "Env \<Rightarrow> byte list list \<Rightarrow> byte list" where
  "soliditySha3 E args = keccak256 E (concat args)"

definition hashOrder :: "Env \<Rightarrow> BlockchainOrder \<Rightarrow> byte list" where
  "hashOrder E order =
     soliditySha3 E
       [[0x03],
        bo_senderAddress order,
        bo_matcherAddress order,
        bo_baseAsset order,
        bo_quoteAsset order,
        bo_matcherFeeAsset order,
        longToHex (bo_amount order),
        longToHex (bo_price order),
        longToHex (bo_matcherFee order),
        longToHex (bo_nonce order),
        longToHex (bo_expiration order),
        if truthy (bo_buySide order) then [0x01] else [0x00]]"

definition DEFAULT_EXPIRATION :: rat where
  "DEFAULT_EXPIRATION = 29 * 24 * 60 * 60 * 1000"

text \<open>The fields of the \<^verbatim>\<open>OrionBlockchain\<close> object that signing reads.\<close>

record OrionBlockchain =
  ob_chainId :: int
  ob_matcherAddress :: address
  ob_bufferKey :: "byte list"
  ob_address :: address

definition signOrder :: "Env \<Rightarrow> OrionBlockchain \<Rightarrow> BlockchainOrder \<Rightarrow> byte list" where
  "signOrder E this order =
     signTypedMessage E (ob_bufferKey this)
       \<lparr>domain_name = ''Orion Exchange'',
        domain_version = ''1'',
        domain_chainId = ob_chainId this,
        domain_salt = ''0xf2d857f4a3edcb9b78b4d503bfe733db1e3f6cdc2b7971ee739626c97e86a557'',
        primaryType = ''Order'',
        message = order\<rparr>"

definition toBaseUnit :: "BigNumber \<Rightarrow> number" where
  "toBaseUnit amount = Math_round (times_number (toNumber amount) (Num (10 ^ 8)))"

definition counterSide :: "Side \<Rightarrow> number" where
  "counterSide side = (if side = buy then Num 0 else Num 1)"

definition createBlockchainOrder ::
  "Env \<Rightarrow> OrionBlockchain \<Rightarrow> DbSubOrder \<Rightarrow> Trade \<Rightarrow> BlockchainOrder" where
  "createBlockchainOrder E this subOrder trade =
     (let assets = symbolToAddresses E (so_symbol subOrder);
          buySide = counterSide (so_side subOrder);
          matcherFeeAsset = nameToAddress E ''ORN''
      in \<lparr>bo_id = [],
          bo_senderAddress = ob_address this,
          bo_matcherAddress = ob_matcherAddress this,
          bo_baseAsset = fst assets,
          bo_quoteAsset = snd assets,
          bo_matcherFeeAsset = matcherFeeAsset,
          bo_amount = toBaseUnit (tr_amount trade),
          bo_price = toBaseUnit (tr_price trade),
          bo_matcherFee = Num 0,
          bo_nonce = Num (of_int (so_timestamp subOrder)),
          bo_expiration = plus_number (Num (of_int (so_timestamp subOrder))) (Num DEFAULT_EXPIRATION),
          bo_buySide = buySide,
          bo_signature = []\<rparr>)"

definition signTrade :: "Env \<Rightarrow> OrionBlockchain \<Rightarrow> DbSubOrder \<Rightarrow> Trade \<Rightarrow> BlockchainOrder" where
  "signTrade E this subOrder trade =
     (let bo = createBlockchainOrder E this subOrder trade;
          bo = bo\<lparr>bo_id := hashOrder E bo\<rparr>;
          bo = bo\<lparr>bo_signature := signOrder E this bo\<rparr>
      in bo)"

section \<open>Broker.ts\<close>

record CreateSubOrder =
  cr_id :: int
  cr_symbol :: string
  cr_side :: Side
  cr_price :: BigNumber
  cr_amount :: BigNumber
  cr_exchange :: string

record Liability =
  li_assetName :: string
  li_outstandingAmount :: BigNumber
  li_timestamp :: rat

text \<open>
  \<^verbatim>\<open>ExchangeResolve<Balances>\<close>: the answer of one venue to the balance poll, an error or
  a dictionary from currency to amount.
\<close>

record ExchangeResolve =
  er_error :: "error option"
  er_result :: "(string \<times> BigNumber) list"

text \<open>
  The state of the \<^verbatim>\<open>Broker\<close> object: the store, the in-memory balance snapshot (a
  dictionary, kept as an association list in the order in which its keys were added), the
  balance payload kept by the web UI, the chain client, the due period of the settings, and
  the history of commands.
\<close>

record Broker =
  db :: Db
  lastBalances :: "(string \<times> (string \<times> BigNumber) list) list"
  webUI_lastBalancesJson :: "(string \<times> (string \<times> string) list) list"
  orionBlockchain :: OrionBlockchain
  duePeriodSeconds :: rat
  calls :: "Call list"

text \<open>Assignment \<^verbatim>\<open>dict[key] = value\<close> on a dictionary.\<close>

fun assign :: "'k \<Rightarrow> 'v \<Rightarrow> ('k \<times> 'v) list \<Rightarrow> ('k \<times> 'v) list" where
  "assign k v [] = [(k, v)]"
| "assign k v (p # ps) = (if fst p = k then (k, v) # ps else p # assign k v ps)"

definition sendToFrontend :: "DbSubOrder \<Rightarrow> Broker \<Rightarrow> Broker" where
  "sendToFrontend data this = this\<lparr>calls := calls this @ [SendToFrontend data]\<rparr>"

definition onSubOrderStatusAccepted ::
  "SubOrderStatusAccepted \<Rightarrow> Broker \<Rightarrow> (error + unit) \<times> Broker" where
  "onSubOrderStatusAccepted data this =
     (let id' = ssa_id data in
      case getSubOrderById (db this) id' of
        None \<Rightarrow> (Inl (SuborderNotFound id'), this)
      | Some dbSubOrder \<Rightarrow>
          let rejectedByAggregator =
                (ssa_status data = REJECTED \<and> so_status dbSubOrder \<noteq> REJECTED);
              dbSubOrder =
                (if rejectedByAggregator then dbSubOrder\<lparr>so_status := REJECTED\<rparr>
                 else dbSubOrder);
              isStatusFinal =
                (so_status dbSubOrder \<noteq> PREPARE \<and> so_status dbSubOrder \<noteq> ACCEPTED)
          in if rejectedByAggregator \<or> (so_status dbSubOrder = ssa_status data \<and> isStatusFinal)
             then let dbSubOrder = dbSubOrder\<lparr>so_sentToAggregator := True\<rparr>;
                      this = this\<lparr>db := updateSubOrder (db this) dbSubOrder\<rparr>
                  in (Inr (), sendToFrontend dbSubOrder this)
             else (Inr (), this))"

text \<open>
  The trades that \<^verbatim>\<open>onCheckSubOrder\<close> reads: none when \<^verbatim>\<open>exchangeOrderId\<close> is
  missing or the empty string (both are false in the condition).
\<close>

definition subOrderTrades :: "Db \<Rightarrow> DbSubOrder \<Rightarrow> Trade list" where
  "subOrderTrades d dbSubOrder =
     (case so_exchangeOrderId dbSubOrder of
        None \<Rightarrow> []
      | Some eoid \<Rightarrow>
          if eoid = [] then [] else getSubOrderTrades d (so_exchange dbSubOrder) eoid)"

definition onCheckSubOrder :: "Env \<Rightarrow> Broker \<Rightarrow> int \<Rightarrow> error + SubOrderStatus" where
  "onCheckSubOrder E this id' =
     (case getSubOrderById (db this) id' of
        None \<Rightarrow>
          Inr \<lparr>st_id = id', st_status = None, st_filledAmount = ''0'', st_blockchainOrder = None\<rparr>
      | Some dbSubOrder \<Rightarrow>
          let trades = subOrderTrades (db this) dbSubOrder
          in if length trades > 1 then Inl (MultipleTrades (so_id dbSubOrder))
             else
               let blockchainOrder =
                     (case trades of
                        [] \<Rightarrow> None
                      | t # _ \<Rightarrow> Some (signTrade E (orionBlockchain this) dbSubOrder t))
               in Inr \<lparr>st_id = id',
                       st_status =
                         Some (if so_status dbSubOrder = PREPARE then ACCEPTED
                               else so_status dbSubOrder),
                       st_filledAmount = toString E (so_filledAmount dbSubOrder),
                       st_blockchainOrder = blockchainOrder\<rparr>)"

definition onCreateSubOrder ::
  "Env \<Rightarrow> CreateSubOrder \<Rightarrow> Broker \<Rightarrow> (error + SubOrderStatus) \<times> Broker" where
  "onCreateSubOrder E request this =
     (case getSubOrderById (db this) (cr_id request) of
        Some oldSubOrder \<Rightarrow> (onCheckSubOrder E this (cr_id request), this)
      | None \<Rightarrow>
          let dbSubOrder =
                \<lparr>so_id = cr_id request,
                 so_symbol = cr_symbol request,
                 so_side = cr_side request,
                 so_price = cr_price request,
                 so_amount = cr_amount request,
                 so_exchange = cr_exchange request,
                 so_exchangeOrderId = None,
                 so_timestamp = Date_now E (calls this),
                 so_status = PREPARE,
                 so_filledAmount = BN 0,
                 so_sentToAggregator = False\<rparr>;
              this = this\<lparr>db := insertSubOrder (db this) dbSubOrder\<rparr>;
              subOrder =
                submitSubOrder E (calls this) (cr_exchange request) (so_id dbSubOrder)
                  (so_symbol dbSubOrder) (so_side dbSubOrder) (so_amount dbSubOrder)
                  (so_price dbSubOrder);
              this =
                this\<lparr>calls := calls this @
                  [SubmitSubOrder (cr_exchange request) (so_id dbSubOrder) (so_symbol dbSubOrder)
                     (so_side dbSubOrder) (so_amount dbSubOrder) (so_price dbSubOrder)]\<rparr>;
              dbSubOrder =
                (case subOrder of
                   Inl e \<Rightarrow> dbSubOrder\<lparr>so_status := REJECTED\<rparr>
                 | Inr s \<Rightarrow>
                     dbSubOrder\<lparr>so_exchangeOrderId := so_exchangeOrderId s,
                                so_status := ACCEPTED\<rparr>);
              this = this\<lparr>db := updateSubOrder (db this) dbSubOrder\<rparr>;
              this = sendToFrontend dbSubOrder this
          in (onCheckSubOrder E this (so_id dbSubOrder), this))"

text \<open>
  \<^verbatim>\<open>onTrade\<close> catches and logs every exception of its body; the result \<open>Inl e\<close> stands
  for the logged exception \<open>e\<close>, \<open>Inr ()\<close> for a body that ran to its end.
\<close>

definition onTrade :: "Env \<Rightarrow> Trade \<Rightarrow> Broker \<Rightarrow> (error + unit) \<times> Broker" where
  "onTrade E trade this =
     (case getSubOrder (db this) (tr_exchange trade) (tr_exchangeOrderId trade) of
        None \<Rightarrow> (Inl (TradeSuborderNotFound (tr_exchangeOrderId trade) (tr_exchange trade)), this)
      | Some dbSubOrder \<Rightarrow>
          if tr_status trade \<noteq> FILLED \<and> tr_status trade \<noteq> CANCELED
          then (Inl (UnexpectedTradeStatus (tr_status trade)), this)
          else if tr_status trade = FILLED \<and> \<not> eq (so_amount dbSubOrder) (tr_amount trade)
          then (Inl (PartialTrade (so_id dbSubOrder)), this)
          else
            let dbSubOrder =
                  dbSubOrder\<lparr>so_filledAmount := tr_amount trade, so_status := tr_status trade\<rparr>;
                this =
                  (if gt (so_filledAmount dbSubOrder) (BN 0)
                   then this\<lparr>db := insertTrade (db this) trade\<rparr>
                   else this);
                this = this\<lparr>db := updateSubOrder (db this) dbSubOrder\<rparr>
            in case onCheckSubOrder E this (so_id dbSubOrder) of
                 Inl e \<Rightarrow> (Inl e, this)
               | Inr status \<Rightarrow>
                   let sent = sendSubOrderStatus E (calls this) status;
                       this = this\<lparr>calls := calls this @ [SendSubOrderStatus status]\<rparr>
                   in case sent of
                        Inl e \<Rightarrow> (Inl e, this)
                      | Inr _ \<Rightarrow> (Inr (), sendToFrontend dbSubOrder this))"

subsection \<open>Deposits and withdrawals\<close>

text \<open>\<^verbatim>\<open>fromWei8(wei) = new BigNumber(wei).dividedBy(10 ** 8)\<close>.\<close>

fun fromWei8 :: "BigNumber \<Rightarrow> BigNumber" where
  "fromWei8 (BN r) = BN (r / 10 ^ 8)"
| "fromWei8 BNaN = BNaN"

text \<open>
  The body of the loop of \<^verbatim>\<open>getExchangeForWithdraw\<close> for one venue: \<open>Some\<close> is the
  \<^verbatim>\<open>return\<close>, \<open>None\<close> stands for \<^verbatim>\<open>continue\<close> and for an exception, which the
  \<^verbatim>\<open>catch\<close> inside the loop logs before the next venue is tried. A missing balance of
  the asset makes \<^verbatim>\<open>.gt\<close> throw a TypeError.
\<close>

definition tryExchange ::
  "Env \<Rightarrow> Broker \<Rightarrow> BigNumber \<Rightarrow> string \<Rightarrow> string \<Rightarrow> (string \<times> BigNumber) option" where
  "tryExchange E this amount assetName exchange =
     (case connector_hasWithdraw E (calls this) exchange of
        Inl e \<Rightarrow> None
      | Inr has \<Rightarrow>
          if \<not> has then None
          else
            (case getWithdrawLimit E (calls this) exchange assetName of
               Inl e \<Rightarrow> None
             | Inr None \<Rightarrow> None
             | Inr (Some withdrawLimit) \<Rightarrow>
                 if isNaN (wl_fee withdrawLimit) \<or> isNaN (wl_min withdrawLimit) then None
                 else
                   let amountWithFee = plus_bn amount (wl_fee withdrawLimit);
                       amountWithFee =
                         (if lt amountWithFee (wl_min withdrawLimit) then wl_min withdrawLimit
                          else amountWithFee)
                   in (case map_of (lastBalances this) exchange of
                         None \<Rightarrow> None
                       | Some balances \<Rightarrow>
                           (case map_of balances assetName of
                              None \<Rightarrow> None
                            | Some balance \<Rightarrow>
                                if gt balance amountWithFee then Some (exchange, amountWithFee)
                                else None))))"

fun getExchangeForWithdraw_loop ::
  "Env \<Rightarrow> Broker \<Rightarrow> BigNumber \<Rightarrow> string \<Rightarrow> string list \<Rightarrow> (string \<times> BigNumber) option" where
  "getExchangeForWithdraw_loop E this amount assetName [] = None"
| "getExchangeForWithdraw_loop E this amount assetName (exchange # rest) =
     (case tryExchange E this amount assetName exchange of
        Some r \<Rightarrow> Some r
      | None \<Rightarrow> getExchangeForWithdraw_loop E this amount assetName rest)"

definition getExchangeForWithdraw ::
  "Env \<Rightarrow> Broker \<Rightarrow> BigNumber \<Rightarrow> string \<Rightarrow> (string \<times> BigNumber) option" where
  "getExchangeForWithdraw E this amount assetName =
     getExchangeForWithdraw_loop E this amount assetName (map fst (lastBalances this))"

definition exchangeWithdraw ::
  "Env \<Rightarrow> string \<Rightarrow> BigNumber \<Rightarrow> string \<Rightarrow> Broker \<Rightarrow> (error + unit) \<times> Broker" where
  "exchangeWithdraw E exchange amount assetName this =
     (if \<not> hasWithdraw E (calls this) exchange then (Inr (), this)
      else
        let exchangeWithdrawId =
              withdraw E (calls this) exchange assetName amount
                (ob_address (orionBlockchain this));
            this =
              this\<lparr>calls := calls this @
                [ExchangeWithdraw exchange assetName amount (ob_address (orionBlockchain this))]\<rparr>
        in case exchangeWithdrawId of
             None \<Rightarrow> (Inr (), this)
           | Some wid \<Rightarrow>
               if wid = [] then (Inr (), this)
               else
                 (Inr (),
                  this\<lparr>db := insertWithdraw (db this)
                    \<lparr>wd_exchangeWithdrawId = wid,
                     wd_exchange = exchange,
                     wd_currency = assetName,
                     wd_amount = amount,
                     wd_status = pending\<rparr>\<rparr>))"

text \<open>
  \<^verbatim>\<open>OrionBlockchain.depositETH\<close> and \<^verbatim>\<open>depositERC20\<close>: the transaction is built, signed
  and sent through the gateway (\<open>execute\<close>, which answers with the transaction hash or throws:
  unknown asset, no nonce, gas price above the cap, gateway failure); the result is the
  \<^verbatim>\<open>Transaction\<close> record in status PENDING.
\<close>

definition depositETH :: "Env \<Rightarrow> BigNumber \<Rightarrow> Broker \<Rightarrow> (error + Transaction) \<times> Broker" where
  "depositETH E amount this =
     (let sent = execute E (calls this) ''deposit'' amount ''ETH'';
          this = this\<lparr>calls := calls this @ [Execute ''deposit'' amount ''ETH'']\<rparr>
      in case sent of
           Inl e \<Rightarrow> (Inl e, this)
         | Inr transactionHash \<Rightarrow>
             (Inr \<lparr>tx_transactionHash = transactionHash,
                   tx_method = ''deposit'',
                   tx_asset = ''ETH'',
                   tx_amount = amount,
                   tx_createTime = Date_now E (calls this),
                   tx_status = PENDING\<rparr>, this))"

definition depositERC20 ::
  "Env \<Rightarrow> BigNumber \<Rightarrow> string \<Rightarrow> Broker \<Rightarrow> (error + Transaction) \<times> Broker" where
  "depositERC20 E amount assetName this =
     (let sent = execute E (calls this) ''depositAsset'' amount assetName;
          this = this\<lparr>calls := calls this @ [Execute ''depositAsset'' amount assetName]\<rparr>
      in case sent of
           Inl e \<Rightarrow> (Inl e, this)
         | Inr transactionHash \<Rightarrow>
             (Inr \<lparr>tx_transactionHash = transactionHash,
                   tx_method = ''depositAsset'',
                   tx_asset = assetName,
                   tx_amount = amount,
                   tx_createTime = Date_now E (calls this),
                   tx_status = PENDING\<rparr>, this))"

definition deposit ::
  "Env \<Rightarrow> BigNumber \<Rightarrow> string \<Rightarrow> Broker \<Rightarrow> (error + unit) \<times> Broker" where
  "deposit E amount assetName this =
     (case getWalletBalance E (calls this) of
        Inl e \<Rightarrow> (Inl e, this)
      | Inr balance \<Rightarrow>
          (case balance assetName of
             None \<Rightarrow> (Inl TypeError, this)
           | Some b \<Rightarrow>
               if lt b amount then (Inr (), this)
               else if assetName = ''ETH'' then
                 (case depositETH E amount this of
                    (Inl e, this) \<Rightarrow> (Inl e, this)
                  | (Inr transaction, this) \<Rightarrow>
                      (Inr (), this\<lparr>db := insetTransaction (db this) transaction\<rparr>))
               else
                 (case getAllowance E (calls this) assetName of
                    Inl e \<Rightarrow> (Inl e, this)
                  | Inr allowance \<Rightarrow>
                      if gte allowance amount then
                        (case depositERC20 E amount assetName this of
                           (Inl e, this) \<Rightarrow> (Inl e, this)
                         | (Inr transaction, this) \<Rightarrow>
                             (Inr (), this\<lparr>db := insetTransaction (db this) transaction\<rparr>))
                      else (Inr (), this))))"

text \<open>A wallet balance that is missing or \<^verbatim>\<open>NaN\<close>: \<^verbatim>\<open>!b || b.isNaN()\<close>.\<close>

fun noBalance :: "BigNumber option \<Rightarrow> bool" where
  "noBalance None = True"
| "noBalance (Some b) = isNaN b"

definition manageLiability :: "Env \<Rightarrow> Liability \<Rightarrow> Broker \<Rightarrow> (error + unit) \<times> Broker" where
  "manageLiability E liability this =
     (let now = of_int (Date_now E (calls this)) / 1000 in
      if gt (li_outstandingAmount liability) (BN 0)
         \<and> now - li_timestamp liability > duePeriodSeconds this
      then
        let assetName = li_assetName liability;
            amount = fromWei8 (li_outstandingAmount liability)
        in if getPendingTransactions (db this) \<noteq> [] then (Inr (), this)
           else if getWithdrawsToCheck (db this) \<noteq> [] then (Inr (), this)
           else
             (case getWalletBalance E (calls this) of
                Inl e \<Rightarrow> (Inl e, this)
              | Inr balance \<Rightarrow>
                  if noBalance (balance assetName) then (Inl (NoBalance assetName), this)
                  else if noBalance (balance ''ETH'') then (Inl (NoBalance ''ETH''), this)
                  else
                    (case (balance assetName, balance ''ETH'') of
                       (Some assetBalance, Some ethBalance) \<Rightarrow>
                         let ethFeeAmount = BN (45 / 1000) in
                         if \<not> gt ethBalance ethFeeAmount then (Inr (), this)
                         else
                           let assetBalance =
                                 (if assetName = ''ETH'' then minus_bn assetBalance ethFeeAmount
                                  else assetBalance);
                               fitBalance = gte assetBalance amount
                           in if fitBalance then deposit E amount assetName this
                              else
                                let remaining = minus_bn amount assetBalance
                                in (case getExchangeForWithdraw E this remaining assetName of
                                      Some (exchange, amountWithFee) \<Rightarrow>
                                        exchangeWithdraw E exchange amountWithFee assetName this
                                    | None \<Rightarrow> (Inr (), this))
                     | _ \<Rightarrow> (Inl TypeError, this)))
      else (Inr (), this))"

subsection \<open>The balance snapshot\<close>

text \<open>
  The dictionaries of \<^verbatim>\<open>sendUpdateBalance\<close> are association lists in the order of
  \<^verbatim>\<open>for ... in\<close> (the order in which the keys were added; venue and currency names are not
  integer-like keys). \<^verbatim>\<open>JSON.stringify\<close> of a dictionary of dictionaries of strings is
  modelled by the dictionary itself.
\<close>

definition copyBalances :: "('v \<Rightarrow> 'w) \<Rightarrow> (string \<times> 'v) list \<Rightarrow> (string \<times> 'w) list" where
  "copyBalances f result = fold (\<lambda>(currency, v) d. assign currency (f v) d) result []"

fun sendUpdateBalance_loop ::
  "Env \<Rightarrow> (string \<times> ExchangeResolve) list \<Rightarrow>
   (string \<times> (string \<times> string) list) list \<times> (string \<times> (string \<times> BigNumber) list) list \<Rightarrow>
   (string \<times> (string \<times> string) list) list \<times> (string \<times> (string \<times> BigNumber) list) list" where
  "sendUpdateBalance_loop E [] acc = acc"
| "sendUpdateBalance_loop E ((exchange, exchangeBalances) # rest) (exchanges, lb) =
     (case er_error exchangeBalances of
        Some e \<Rightarrow> sendUpdateBalance_loop E rest (exchanges, lb)
      | None \<Rightarrow>
          sendUpdateBalance_loop E rest
            (assign exchange (copyBalances (toString E) (er_result exchangeBalances)) exchanges,
             assign exchange (copyBalances (\<lambda>v. v) (er_result exchangeBalances)) lb))"

definition sendUpdateBalance ::
  "Env \<Rightarrow> (string \<times> ExchangeResolve) list \<Rightarrow> Broker \<Rightarrow> (error + unit) \<times> Broker" where
  "sendUpdateBalance E balances this =
     (let (exchanges, lb) = sendUpdateBalance_loop E balances ([], []);
          this = this\<lparr>lastBalances := lb\<rparr>;
          newBalancesJson = exchanges
      in if getLastBalancesJson E (calls this) \<noteq> newBalancesJson
         then
           let this = this\<lparr>webUI_lastBalancesJson := newBalancesJson\<rparr>;
               sent = sendBalances E (calls this) exchanges
           in (sent, this\<lparr>calls := calls this @ [SendBalances exchanges]\<rparr>)
         else (Inr (), this))"

section \<open>Notions of the specification\<close>

text \<open>A call of the exchange adapter's \<^verbatim>\<open>submitSubOrder\<close> in the history.\<close>

definition isSubmitSubOrder :: "Call \<Rightarrow> bool" where
  "isSubmitSubOrder c = (case c of SubmitSubOrder _ _ _ _ _ _ \<Rightarrow> True | _ \<Rightarrow> False)"

text \<open>
  The trades of a sub-order: the stored trades with its venue and its venue-assigned order
  id (the key of the relation between sub-orders and trades in the specification).
\<close>

definition tradesOf :: "Db \<Rightarrow> DbSubOrder \<Rightarrow> Trade list" where
  "tradesOf d s =
     filter (\<lambda>t. tr_exchange t = so_exchange s \<and> so_exchangeOrderId s = Some (tr_exchangeOrderId t))
       (trades d)"

text \<open>
  The venue selection of the specification, in its words: a venue qualifies for the withdrawal
  of \<open>remaining\<close> when it supports withdrawal, has a valid withdraw limit \<open>{min, fee}\<close> and its
  last known balance of the asset strictly exceeds \<open>amountWithFee = max (remaining + fee) min\<close>.
  The value is that \<open>amountWithFee\<close>, or \<open>None\<close> when the venue does not qualify.
\<close>

definition qualifying :: "Env \<Rightarrow> Broker \<Rightarrow> rat \<Rightarrow> string \<Rightarrow> string \<Rightarrow> BigNumber option" where
  "qualifying E this remaining assetName exchange =
     (case (connector_hasWithdraw E (calls this) exchange,
            getWithdrawLimit E (calls this) exchange assetName) of
        (Inr True, Inr (Some limit)) \<Rightarrow>
          (case (wl_min limit, wl_fee limit,
                 Option.bind (map_of (lastBalances this) exchange)
                   (\<lambda>balances. map_of balances assetName)) of
             (BN m, BN f, Some (BN balance)) \<Rightarrow>
               if balance > max (remaining + f) m then Some (BN (max (remaining + f) m))
               else None
           | _ \<Rightarrow> None)
      | _ \<Rightarrow> None)"

text \<open>
  The frame of \<^verbatim>\<open>manageLiability\<close>: what the state after the call may differ in from the
  state before. \<open>extends xs ys\<close>: the list \<open>ys\<close> is \<open>xs\<close>, or \<open>xs\<close> with one more item at
  its end. A deposit is a transaction sent through the gateway, a venue withdrawal a
  \<^verbatim>\<open>withdraw\<close> of a connector.
\<close>

definition isDepositOrWithdrawal :: "Call \<Rightarrow> bool" where
  "isDepositOrWithdrawal c =
     (case c of Execute _ _ _ \<Rightarrow> True | ExchangeWithdraw _ _ _ _ \<Rightarrow> True | _ \<Rightarrow> False)"

definition extends :: "'a list \<Rightarrow> 'a list \<Rightarrow> bool" where
  "extends xs ys = (take (length xs) ys = xs \<and> length ys \<le> length xs + 1)"

definition liabilityFrame :: "Broker \<Rightarrow> Broker \<Rightarrow> bool" where
  "liabilityFrame this this' =
     (subOrders (db this') = subOrders (db this)
      \<and> trades (db this') = trades (db this)
      \<and> lastBalances this' = lastBalances this
      \<and> webUI_lastBalancesJson this' = webUI_lastBalancesJson this
      \<and> orionBlockchain this' = orionBlockchain this
      \<and> duePeriodSeconds this' = duePeriodSeconds this
      \<and> extends (calls this) (calls this')
      \<and> list_all isDepositOrWithdrawal (drop (length (calls this)) (calls this'))
      \<and> extends (transactions (db this)) (transactions (db this'))
      \<and> extends (withdraws (db this)) (withdraws (db this'))
      \<and> list_all (\<lambda>t. tx_status t = PENDING)
           (drop (length (transactions (db this))) (transactions (db this')))
      \<and> list_all (\<lambda>w. wd_status w = pending)
           (drop (length (withdraws (db this))) (withdraws (db this')))
      \<and> length (transactions (db this')) + length (withdraws (db this')) + length (calls this)
           \<le> length (transactions (db this)) + length (withdraws (db this))
             + length (calls this'))"

text \<open>
  The canonical form of a blockchain order for hashing, in the words of the specification:
  the tag \<open>0x03\<close>, the five addresses, then amount, price, matcherFee, nonce and expiration
  each as a big-endian 8-byte unsigned integer, then buySide as one byte.
\<close>

definition uint64_be :: "nat \<Rightarrow> byte list" where
  "uint64_be n = map (\<lambda>k. of_nat (n div 256 ^ k mod 256)) [7, 6, 5, 4, 3, 2, 1, 0 :: nat]"

definition toNat :: "number \<Rightarrow> nat" where
  "toNat x = (case x of Num r \<Rightarrow> nat \<lfloor>r\<rfloor> | _ \<Rightarrow> 0)"

definition canonicalForm :: "BlockchainOrder \<Rightarrow> byte list" where
  "canonicalForm order =
     [0x03] @ bo_senderAddress order @ bo_matcherAddress order @ bo_baseAsset order
     @ bo_quoteAsset order @ bo_matcherFeeAsset order
     @ uint64_be (toNat (bo_amount order)) @ uint64_be (toNat (bo_price order))
     @ uint64_be (toNat (bo_matcherFee order)) @ uint64_be (toNat (bo_nonce order))
     @ uint64_be (toNat (bo_expiration order))
     @ [if bo_buySide order = Num 1 then 1 else 0]"

text \<open>
  The orders of the canonical form: 20-byte addresses, numeric fields that are integers from 0
  to \<open>2^63 - 1\<close> (the non-negative range of the signed \<^verbatim>\<open>Long\<close>), and a buySide of 0 or 1.
\<close>

definition isUint63 :: "number \<Rightarrow> bool" where
  "isUint63 x = (case x of Num r \<Rightarrow> 0 \<le> r \<and> r < 2 ^ 63 \<and> r = of_int \<lfloor>r\<rfloor> | _ \<Rightarrow> False)"

definition wellFormed :: "BlockchainOrder \<Rightarrow> bool" where
  "wellFormed order =
     (length (bo_senderAddress order) = 20 \<and> length (bo_matcherAddress order) = 20
      \<and> length (bo_baseAsset order) = 20 \<and> length (bo_quoteAsset order) = 20
      \<and> length (bo_matcherFeeAsset order) = 20
      \<and> isUint63 (bo_amount order) \<and> isUint63 (bo_price order)
      \<and> isUint63 (bo_matcherFee order) \<and> isUint63 (bo_nonce order)
      \<and> isUint63 (bo_expiration order)
      \<and> (bo_buySide order = Num 0 \<or> bo_buySide order = Num 1))"

text \<open>The eleven fields that are hashed: the order with its id and signature blanked.\<close>

definition hashedFields :: "BlockchainOrder \<Rightarrow> BlockchainOrder" where
  "hashedFields order = order\<lparr>bo_id := [], bo_signature := []\<rparr>"

section \<open>Data of the worked examples\<close>

text \<open>
  Stand-ins for the external collaborators, used only to run the scenarios of the
  specification (S1, S3, S4, S6) on concrete values: the venue accepts every order with the
  order id \<^verbatim>\<open>e1\<close>, every venue has the withdraw limit \<open>{min: 10, fee: 1}\<close>, the wallet
  holds no USDT and 0.1 ETH.
\<close>

definition exampleEnv :: Env where
  "exampleEnv =
     \<lparr>Date_now = (\<lambda>h. 1600000000000),
      toString = (\<lambda>b. case b of BN r \<Rightarrow> (if r = 0 then ''0'' else ''1'') | BNaN \<Rightarrow> ''NaN''),
      keccak256 = (\<lambda>bytes. take 32 bytes),
      signTypedMessage = (\<lambda>key data. key @ bo_id (message data)),
      symbolToAddresses = (\<lambda>symbol. (replicate 20 0xB0, replicate 20 0xC0)),
      nameToAddress = (\<lambda>name. replicate 20 0xA0),
      submitSubOrder = (\<lambda>h exchange i symbol side amount price.
        Inr \<lparr>so_id = i, so_symbol = symbol, so_side = side, so_price = price, so_amount = amount,
             so_exchange = exchange, so_exchangeOrderId = Some ''e1'',
             so_timestamp = 1600000000000, so_status = ACCEPTED, so_filledAmount = BN 0,
             so_sentToAggregator = False\<rparr>),
      sendSubOrderStatus = (\<lambda>h status. Inr ()),
      connector_hasWithdraw = (\<lambda>h exchange. Inr True),
      getWithdrawLimit = (\<lambda>h exchange asset. Inr (Some \<lparr>wl_min = BN 10, wl_fee = BN 1\<rparr>)),
      hasWithdraw = (\<lambda>h exchange. True),
      withdraw = (\<lambda>h exchange asset amount address. Some ''w1''),
      getWalletBalance = (\<lambda>h. Inr [''USDT'' \<mapsto> BN 0, ''ETH'' \<mapsto> BN (1 / 10)]),
      getAllowance = (\<lambda>h asset. Inr (BN 1000)),
      execute = (\<lambda>h method amount asset. Inr ''0x01''),
      getLastBalancesJson = (\<lambda>h. []),
      sendBalances = (\<lambda>h payload. Inr ())\<rparr>"

definition exampleChain :: OrionBlockchain where
  "exampleChain =
     \<lparr>ob_chainId = 3, ob_matcherAddress = replicate 20 0x11, ob_bufferKey = replicate 32 0x22,
      ob_address = replicate 20 0x33\<rparr>"

text \<open>Sub-order 1 of scenario S1 after the venue accepted it, and its fill.\<close>

definition subOrder1 :: DbSubOrder where
  "subOrder1 =
     \<lparr>so_id = 1, so_symbol = ''BTC-USDT'', so_side = buy, so_price = BN 10000,
      so_amount = BN (1 / 100), so_exchange = ''X'', so_exchangeOrderId = Some ''e1'',
      so_timestamp = 1600000000000, so_status = ACCEPTED, so_filledAmount = BN 0,
      so_sentToAggregator = False\<rparr>"

definition trade1 :: Trade where
  "trade1 =
     \<lparr>tr_exchange = ''X'', tr_exchangeOrderId = ''e1'', tr_price = BN 10000,
      tr_amount = BN (1 / 100), tr_status = FILLED\<rparr>"

text \<open>A broker with the given sub-orders and trades; venue X holds 200 USDT.\<close>

definition exampleBroker :: "DbSubOrder list \<Rightarrow> Trade list \<Rightarrow> Broker" where
  "exampleBroker rows ts =
     \<lparr>db = \<lparr>subOrders = rows, trades = ts, withdraws = [], transactions = []\<rparr>,
      lastBalances = [(''X'', [(''USDT'', BN 200)])],
      webUI_lastBalancesJson = [],
      orionBlockchain = exampleChain,
      duePeriodSeconds = 3600,
      calls = []\<rparr>"

definition request4 :: CreateSubOrder where
  "request4 =
     \<lparr>cr_id = 4, cr_symbol = ''BTC-USDT'', cr_side = buy, cr_price = BN 10000,
      cr_amount = BN (1 / 100), cr_exchange = ''X''\<rparr>"

text \<open>
  The liability of scenarios S5 and S6: 100 USDT (in units of \<open>10^-8\<close>), due one second
  longer than the due period of one hour. A transaction that is still PENDING. The balance
  poll of two venues, of which Y failed.
\<close>

definition liability6 :: Liability where
  "liability6 =
     \<lparr>li_assetName = ''USDT'', li_outstandingAmount = BN 10000000000,
      li_timestamp = 1599996399\<rparr>"

definition pendingTransaction :: Transaction where
  "pendingTransaction =
     \<lparr>tx_transactionHash = ''0x02'', tx_method = ''deposit'', tx_asset = ''ETH'',
      tx_amount = BN 1, tx_createTime = 1599999999000, tx_status = PENDING\<rparr>"

definition polledBalances :: "(string \<times> ExchangeResolve) list" where
  "polledBalances =
     [(''X'', \<lparr>er_error = None, er_result = [(''USDT'', BN 150), (''ETH'', BN 2)]\<rparr>),
      (''Y'', \<lparr>er_error = Some (External ''timeout''), er_result = []\<rparr>)]"

section \<open>Properties of the store\<close>

lemma getSubOrderById_id: "getSubOrderById d i = Some s \<Longrightarrow> so_id s = i"
  by (auto simp: getSubOrderById_def find_Some_iff)

lemma find_append_case:
  "List.find P (xs @ ys) = (case List.find P xs of None \<Rightarrow> List.find P ys | Some x \<Rightarrow> Some x)"
  by (induction xs) auto

lemma getSubOrderById_updateSubOrder:
  "getSubOrderById (updateSubOrder d s') i =
     map_option (\<lambda>r. if so_id r = so_id s' then s' else r) (getSubOrderById d i)"
proof -
  have "List.find (\<lambda>r. so_id r = i) (map (\<lambda>r. if so_id r = so_id s' then s' else r) xs) =
        map_option (\<lambda>r. if so_id r = so_id s' then s' else r) (List.find (\<lambda>r. so_id r = i) xs)"
    for xs
    by (induction xs) auto
  then show ?thesis by (simp add: getSubOrderById_def updateSubOrder_def)
qed

lemma getSubOrderById_insertSubOrder:
  "getSubOrderById (insertSubOrder d s) i =
     (case getSubOrderById d i of
        Some r \<Rightarrow> Some r
      | None \<Rightarrow> if so_id s = i then Some s else None)"
  by (simp add: getSubOrderById_def insertSubOrder_def find_append_case split: option.splits)

lemma getSubOrder_id: "getSubOrder d ex eoid = Some s \<Longrightarrow> getSubOrderById d (so_id s) \<noteq> None"
  by (auto simp: getSubOrder_def getSubOrderById_def find_Some_iff find_None_iff in_set_conv_nth)

lemma db_sendToFrontend: "db (sendToFrontend x this) = db this"
  by (simp add: sendToFrontend_def)

section \<open>Double arithmetic\<close>

text \<open>
  Rounding to a double moves a value by at most half a unit in the last place: by a relative
  \<open>2^-53\<close>, or by \<open>2^-1075\<close> among the subnormal doubles.
\<close>

lemma roundHalfEven_error: "\<bar>of_int (roundHalfEven q) - q\<bar> \<le> 1 / 2"
proof -
  define f where "f = \<lfloor>q\<rfloor>"
  have a: "of_int f \<le> q" "q < of_int f + 1" unfolding f_def by linarith+
  have r: "roundHalfEven q = f \<and> q - of_int f \<le> 1 / 2
      \<or> roundHalfEven q = f + 1 \<and> 1 / 2 \<le> q - of_int f"
    unfolding roundHalfEven_def Let_def f_def [symmetric] by auto
  then show ?thesis
  proof
    assume "roundHalfEven q = f \<and> q - of_int f \<le> 1 / 2"
    with a show ?thesis by simp
  next
    assume "roundHalfEven q = f + 1 \<and> 1 / 2 \<le> q - of_int f"
    with a show ?thesis by simp
  qed
qed

lemma bitlen_bounds_rat:
  assumes "0 < k"
  shows "(2::rat) powi (bitlen k - 1) \<le> of_int k" and "(of_int k :: rat) < 2 powi (bitlen k)"
proof -
  from bitlen_bounds [OF assms] have lo: "2 ^ nat (bitlen k - 1) \<le> k" and hi: "k < 2 ^ nat (bitlen k)"
    by simp_all
  have b: "1 \<le> bitlen k" using assms by (auto simp: bitlen_alt_def)
  have "(of_int (2 ^ nat (bitlen k - 1)) :: rat) \<le> of_int k" using lo by (simp only: of_int_le_iff)
  then show "(2::rat) powi (bitlen k - 1) \<le> of_int k"
    using b by (simp add: power_int_def)
  have "(of_int k :: rat) < of_int (2 ^ nat (bitlen k))" using hi by (simp only: of_int_less_iff)
  then show "(of_int k :: rat) < 2 powi (bitlen k)"
    using b by (simp add: power_int_def)
qed

lemma exponentOf_bracket:
  assumes "0 < x"
  shows "2 powi (exponentOf x) \<le> x" and "x < 2 powi (exponentOf x + 1)"
proof -
  obtain p q where pq: "quotient_of x = (p, q)" by (cases "quotient_of x")
  then have q: "0 < q" by (rule quotient_of_denom_pos)
  have x: "x = of_int p / of_int q" using pq by (rule quotient_of_div)
  with assms q have p: "0 < p" by (simp add: zero_less_divide_iff)
  define d where "d = bitlen p - bitlen q"
  have lo: "(2::rat) powi (d - 1) < x"
  proof -
    have "(2::rat) powi (d - 1) = 2 powi (bitlen p - 1) / 2 powi (bitlen q)"
      by (simp add: d_def power_int_diff)
    also have "\<dots> \<le> of_int p / 2 powi (bitlen q)"
      using bitlen_bounds_rat(1) [OF p] by (simp add: divide_right_mono)
    also have "\<dots> < of_int p / of_int q"
      using bitlen_bounds_rat(2) [OF q] p q by (simp add: divide_strict_left_mono)
    finally show ?thesis by (simp add: x)
  qed
  have hi: "x < (2::rat) powi (d + 1)"
  proof -
    have "x = of_int p / of_int q" by (rule x)
    also have "\<dots> < 2 powi (bitlen p) / of_int q"
      using bitlen_bounds_rat(2) [OF p] q by (simp add: divide_strict_right_mono)
    also have "\<dots> \<le> 2 powi (bitlen p) / 2 powi (bitlen q - 1)"
      using bitlen_bounds_rat(1) [OF q] by (intro frac_le) simp_all
    also have "\<dots> = 2 powi (d + 1)"
    proof -
      have d1: "d + 1 = bitlen p - (bitlen q - 1)" by (simp add: d_def)
      have "(2::rat) powi (bitlen p - (bitlen q - 1)) = 2 powi bitlen p / 2 powi (bitlen q - 1)"
        by (rule power_int_diff) simp
      then show ?thesis by (simp only: d1)
    qed
    finally show ?thesis .
  qed
  have e: "exponentOf x = (if 2 powi d \<le> x then d else d - 1)"
    by (simp add: exponentOf_def pq d_def)
  show "2 powi (exponentOf x) \<le> x"
    using lo by (simp add: e)
  show "x < 2 powi (exponentOf x + 1)"
    using hi by (simp add: e)
qed


lemma binary64_unfold:
  assumes "x \<noteq> 0"
  defines "e \<equiv> max (exponentOf \<bar>x\<bar>) (- 1022)"
  defines "ulp \<equiv> (2::rat) powi (e - 52)"
  defines "y \<equiv> of_int (roundHalfEven (\<bar>x\<bar> / ulp)) * ulp"
  shows "binary64 x = (if 2 powi 1024 \<le> y then (if 0 < x then PosInf else NegInf)
                       else Num (if 0 < x then y else - y))"
  using assms(1) unfolding binary64_def Let_def e_def ulp_def y_def by simp

lemma binary64_round:
  assumes "x \<noteq> 0"
  defines "e \<equiv> max (exponentOf \<bar>x\<bar>) (- 1022)"
  defines "ulp \<equiv> (2::rat) powi (e - 52)"
  defines "y \<equiv> of_int (roundHalfEven (\<bar>x\<bar> / ulp)) * ulp"
  shows "\<bar>y - \<bar>x\<bar>\<bar> \<le> \<bar>x\<bar> * 2 powi (- 53) + 2 powi (- 1075)"
proof -
  have ulp_pos: "0 < ulp" unfolding ulp_def by simp
  have "\<bar>of_int (roundHalfEven (\<bar>x\<bar> / ulp)) - \<bar>x\<bar> / ulp\<bar> \<le> 1 / 2"
    by (rule roundHalfEven_error)
  then have "\<bar>of_int (roundHalfEven (\<bar>x\<bar> / ulp)) - \<bar>x\<bar> / ulp\<bar> * ulp \<le> 1 / 2 * ulp"
    using ulp_pos by (intro mult_right_mono) simp_all
  moreover have "\<bar>of_int (roundHalfEven (\<bar>x\<bar> / ulp)) - \<bar>x\<bar> / ulp\<bar> * ulp = \<bar>y - \<bar>x\<bar>\<bar>"
  proof -
    have "\<bar>of_int (roundHalfEven (\<bar>x\<bar> / ulp)) - \<bar>x\<bar> / ulp\<bar> * ulp
        = \<bar>(of_int (roundHalfEven (\<bar>x\<bar> / ulp)) - \<bar>x\<bar> / ulp) * ulp\<bar>"
      using ulp_pos by (simp add: abs_mult)
    also have "(of_int (roundHalfEven (\<bar>x\<bar> / ulp)) - \<bar>x\<bar> / ulp) * ulp = y - \<bar>x\<bar>"
      using ulp_pos by (simp add: y_def left_diff_distrib)
    finally show ?thesis .
  qed
  ultimately have half: "\<bar>y - \<bar>x\<bar>\<bar> \<le> ulp / 2" by simp
  have "ulp / 2 \<le> \<bar>x\<bar> * 2 powi (- 53) + 2 powi (- 1075)"
  proof (cases "- 1022 \<le> exponentOf \<bar>x\<bar>")
    case True
    then have e: "e = exponentOf \<bar>x\<bar>" by (simp add: e_def)
    have "ulp / 2 = 2 powi (exponentOf \<bar>x\<bar>) * 2 powi (- 53)"
    proof -
      have "(2::rat) powi (exponentOf \<bar>x\<bar> + (- 53)) = 2 powi (exponentOf \<bar>x\<bar>) * 2 powi (- 53)"
        by (rule power_int_add) simp
      moreover have "(2::rat) powi (exponentOf \<bar>x\<bar> - 52 + (- 1)) = 2 powi (exponentOf \<bar>x\<bar> - 52) * 2 powi (- 1)"
        by (rule power_int_add) simp
      moreover have "exponentOf \<bar>x\<bar> - 52 + (- 1) = exponentOf \<bar>x\<bar> + (- 53)" by simp
      ultimately show ?thesis by (simp add: ulp_def e)
    qed
    also have "\<dots> \<le> \<bar>x\<bar> * 2 powi (- 53)"
      using exponentOf_bracket(1) [of "\<bar>x\<bar>"] assms(1) by (intro mult_right_mono) simp_all
    also have "\<dots> \<le> \<bar>x\<bar> * 2 powi (- 53) + 2 powi (- 1075)" by simp
    finally show ?thesis .
  next
    case False
    then have e: "e = - 1022" by (simp add: e_def)
    have "ulp / 2 = 2 powi (- 1075)"
    proof -
      have "(2::rat) powi (- 1074 + (- 1)) = 2 powi (- 1074) * 2 powi (- 1)"
        by (rule power_int_add) simp
      then show ?thesis by (simp add: ulp_def e)
    qed
    then show ?thesis by simp
  qed
  with half show ?thesis by simp
qed

lemma binary64_error:
  assumes "binary64 x = Num y"
  shows "\<bar>y - x\<bar> \<le> \<bar>x\<bar> * 2 powi (- 53) + 2 powi (- 1075)"
proof (cases "x = 0")
  case True
  with assms show ?thesis by (simp add: binary64_def)
next
  case False
  define e where "e = max (exponentOf \<bar>x\<bar>) (- 1022)"
  define ulp where "ulp = (2::rat) powi (e - 52)"
  define z where "z = of_int (roundHalfEven (\<bar>x\<bar> / ulp)) * ulp"
  have u: "binary64 x = (if 2 powi 1024 \<le> z then (if 0 < x then PosInf else NegInf)
                       else Num (if 0 < x then z else - z))"
    unfolding z_def ulp_def e_def by (rule binary64_unfold [OF False])
  have r: "\<bar>z - \<bar>x\<bar>\<bar> \<le> \<bar>x\<bar> * 2 powi (- 53) + 2 powi (- 1075)"
    unfolding z_def ulp_def e_def by (rule binary64_round [OF False])
  from assms u have y: "y = (if 0 < x then z else - z)"
    by (simp split: if_splits)
  show ?thesis
  proof (cases "0 < x")
    case True
    with y r show ?thesis by simp
  next
    case neg: False
    with False have "x < 0" by simp
    then have "\<bar>y - x\<bar> = \<bar>z - \<bar>x\<bar>\<bar>" using y by simp
    with r show ?thesis by simp
  qed
qed


lemma binary64_finite:
  assumes "\<bar>x\<bar> \<le> 2 ^ 1023"
  shows "\<exists>y. binary64 x = Num y"
proof (cases "x = 0")
  case True
  then show ?thesis by (simp add: binary64_def)
next
  case False
  define e where "e = max (exponentOf \<bar>x\<bar>) (- 1022)"
  define ulp where "ulp = (2::rat) powi (e - 52)"
  define z where "z = of_int (roundHalfEven (\<bar>x\<bar> / ulp)) * ulp"
  have u: "binary64 x = (if 2 powi 1024 \<le> z then (if 0 < x then PosInf else NegInf)
                       else Num (if 0 < x then z else - z))"
    unfolding z_def ulp_def e_def by (rule binary64_unfold [OF False])
  have r: "\<bar>z - \<bar>x\<bar>\<bar> \<le> \<bar>x\<bar> * 2 powi (- 53) + 2 powi (- 1075)"
    unfolding z_def ulp_def e_def by (rule binary64_round [OF False])
  have E: "(2::rat) powi (- 53) \<le> 1 / 4" by (simp add: power_int_minus field_simps)
  have D: "(2::rat) powi (- 1075) \<le> 1" by (simp add: power_int_minus field_simps)
  have "\<bar>x\<bar> * 2 powi (- 53) \<le> \<bar>x\<bar> * (1 / 4)"
    using E by (intro mult_left_mono) simp_all
  with r D have "z \<le> \<bar>x\<bar> + \<bar>x\<bar> / 4 + 1" by simp
  moreover have "(4::rat) \<le> 2 ^ 1023" by simp
  ultimately have "z < 2 * 2 ^ 1023" using assms by simp
  then have "z < 2 powi 1024" by simp
  with u show ?thesis by simp
qed


lemma toBaseUnit_bound:
  assumes "\<bar>a\<bar> * 10 ^ 8 \<le> 2 ^ 1000"
  shows "\<exists>n. toBaseUnit (BN a) = Num (of_int n)
           \<and> \<bar>of_int n - a * 10 ^ 8\<bar> \<le> 1 / 2 + \<bar>a\<bar> * 10 ^ 8 / 2 ^ 51 + 1 / 2 ^ 1000"
proof -
  define A where "A = \<bar>a\<bar> * 10 ^ 8"
  define E where "E = (2::rat) powi (- 53)"
  define D where "D = (2::rat) powi (- 1075)"
  define T where "T = (2::rat) ^ 1000"
  define H where "H = (2::rat) ^ 1023"
  define Q where "Q = A / 2 ^ 51"
  define R where "R = 1 / (2::rat) ^ 1000"
  define AE where "AE = A * E"
  define DD where "DD = D * 10 ^ 8"
  define a8 where "a8 = a * 10 ^ 8"
  have A0: "0 \<le> A" and AT: "A \<le> T" using assms by (simp_all add: A_def T_def)
  have aA: "\<bar>a\<bar> \<le> A" unfolding A_def by (simp add: mult_le_cancel_left1)
  have aa: "\<bar>a8\<bar> = A" by (simp add: A_def a8_def abs_mult)
  have E: "E = 1 / 2 ^ 53" unfolding E_def by (simp add: power_int_minus field_simps)
  have E0: "0 \<le> E" and E1: "E \<le> 1" by (simp_all add: E)
  have D0: "0 \<le> D" unfolding D_def by simp
  have DR: "D * 2 ^ 75 \<le> R" unfolding D_def R_def by (simp add: power_int_minus field_simps)
  have R1: "R \<le> 1" unfolding R_def by simp
  have TH: "T + T + 1 \<le> H" unfolding T_def H_def by simp
  have AE0: "0 \<le> AE" unfolding AE_def using A0 E0 by (rule mult_nonneg_nonneg)
  have AE1: "AE \<le> A" unfolding AE_def using E1 A0 by (rule mult_left_le)
  have AEQ: "4 * AE = Q" unfolding AE_def Q_def by (simp add: E)
  have DD0: "0 \<le> DD" unfolding DD_def using D0 by simp
  have DD1: "DD + DD + D \<le> D * 2 ^ 75"
  proof -
    have "DD + DD + D = D * (10 ^ 8 + 10 ^ 8 + 1)" by (simp add: DD_def algebra_simps)
    also have "\<dots> \<le> D * 2 ^ 75" using D0 by (intro mult_left_mono) simp_all
    finally show ?thesis .
  qed
  from aA AT TH have "\<bar>a\<bar> \<le> H" by linarith
  then have "\<exists>y. binary64 a = Num y" unfolding H_def by (rule binary64_finite)
  then obtain y1 where y1: "binary64 a = Num y1" ..
  define Y where "Y = y1 * 10 ^ 8"
  from binary64_error [OF y1] have e1: "\<bar>y1 - a\<bar> \<le> \<bar>a\<bar> * E + D" by (simp only: E_def D_def)
  have s1: "\<bar>Y - a8\<bar> \<le> AE + DD"
  proof -
    have "Y - a8 = (y1 - a) * 10 ^ 8" unfolding Y_def a8_def by (rule left_diff_distrib [symmetric])
    then have "\<bar>Y - a8\<bar> = \<bar>(y1 - a) * 10 ^ 8\<bar>" by (rule arg_cong)
    also have "\<dots> = \<bar>y1 - a\<bar> * 10 ^ 8" by (simp only: abs_mult) simp
    also have "\<dots> \<le> (\<bar>a\<bar> * E + D) * 10 ^ 8"
      using e1 by (intro mult_right_mono) simp_all
    also have "\<dots> = AE + DD" by (simp add: A_def AE_def DD_def algebra_simps)
    finally show ?thesis .
  qed
  from s1 aa have m1: "\<bar>Y\<bar> \<le> A + AE + DD" by linarith
  from DD0 D0 DD1 DR R1 have DDs: "DD \<le> 1" by linarith
  from m1 AT AE1 DDs TH have "\<bar>Y\<bar> \<le> H" by linarith
  then have "\<exists>y. binary64 Y = Num y" unfolding H_def by (rule binary64_finite)
  then obtain y2 where y2: "binary64 Y = Num y2" ..
  from binary64_error [OF y2] have e2: "\<bar>y2 - Y\<bar> \<le> \<bar>Y\<bar> * E + D" by (simp only: E_def D_def)
  have "\<bar>Y\<bar> * E \<le> (A + AE + DD) * E" using m1 E0 by (rule mult_right_mono)
  also have "\<dots> = AE + AE * E + DD * E" by (simp add: AE_def algebra_simps)
  finally have m2: "\<bar>Y\<bar> * E \<le> AE + AE * E + DD * E" .
  have m3: "AE * E \<le> AE" using E1 AE0 by (rule mult_left_le)
  have m4: "DD * E \<le> DD" using E1 DD0 by (rule mult_left_le)
  define n where "n = \<lfloor>y2 + 1 / 2\<rfloor>"
  have s3: "\<bar>of_int n - y2\<bar> \<le> 1 / 2" unfolding n_def by linarith
  have tb: "toBaseUnit (BN a) = Num (of_int n)"
    using y1 y2 by (simp add: toBaseUnit_def n_def Y_def)
  from s1 e2 m2 m3 m4 s3 have "\<bar>of_int n - a8\<bar> \<le> 1 / 2 + (AE + AE + AE) + (DD + DD + D)"
    by linarith
  with AE0 AEQ DD1 DR have "\<bar>of_int n - a8\<bar> \<le> 1 / 2 + Q + R" by linarith
  then have "\<bar>of_int n - a * 10 ^ 8\<bar> \<le> 1 / 2 + \<bar>a\<bar> * 10 ^ 8 / 2 ^ 51 + 1 / 2 ^ 1000"
    by (simp only: a8_def Q_def R_def A_def)
  with tb show ?thesis by blast
qed

text \<open>An integer of magnitude below \<open>2^53\<close> is a double.\<close>

lemma roundHalfEven_of_int: "roundHalfEven (of_int m) = m"
  by (simp add: roundHalfEven_def)

lemma exponentOf_less:
  assumes "0 < x" and "x < 2 powi n"
  shows "exponentOf x < n"
proof (rule ccontr)
  assume "\<not> exponentOf x < n"
  then have "n \<le> exponentOf x" by simp
  then have "(2::rat) powi n \<le> 2 powi (exponentOf x)" by (rule power_int_increasing) simp
  also have "\<dots> \<le> x" using assms(1) by (rule exponentOf_bracket(1))
  finally show False using assms(2) by simp
qed

lemma exponentOf_ge:
  assumes "0 < x" and "2 powi n \<le> x"
  shows "n \<le> exponentOf x"
proof (rule ccontr)
  assume "\<not> n \<le> exponentOf x"
  then have "exponentOf x + 1 \<le> n" by simp
  then have "(2::rat) powi (exponentOf x + 1) \<le> 2 powi n" by (rule power_int_increasing) simp
  moreover have "x < 2 powi (exponentOf x + 1)" using assms(1) by (rule exponentOf_bracket(2))
  ultimately show False using assms(2) by simp
qed

lemma binary64_of_int:
  assumes "\<bar>k\<bar> < 2 ^ 53"
  shows "binary64 (of_int k) = Num (of_int k)"
proof (cases "k = 0")
  case True
  then show ?thesis by (simp add: binary64_def)
next
  case False
  define x where "x = (of_int \<bar>k\<bar> :: rat)"
  define e where "e = exponentOf x"
  have x1: "1 \<le> x" using False by (simp add: x_def)
  then have x0: "0 < x" by simp
  have "(2::rat) powi 0 \<le> x" using x1 by simp
  with x0 have e0: "0 \<le> e" unfolding e_def by (rule exponentOf_ge)
  have "x < of_int (2 ^ 53)" unfolding x_def using assms by (simp only: of_int_less_iff)
  then have "x < 2 powi 53" by simp
  with x0 have e53: "e < 53" unfolding e_def by (rule exponentOf_less)
  define d where "d = nat (52 - e)"
  define ulp where "ulp = (2::rat) powi (max e (- 1022) - 52)"
  have "max e (- 1022) - 52 = - int d" using e0 e53 by (simp add: d_def)
  then have "ulp = 2 powi (- int d)" by (simp only: ulp_def)
  then have ulp: "ulp = 1 / 2 ^ d" by (simp add: power_int_minus field_simps)
  have q: "x / ulp = of_int (\<bar>k\<bar> * 2 ^ d)" by (simp add: ulp x_def)
  have y: "of_int (roundHalfEven (x / ulp)) * ulp = x"
    unfolding q roundHalfEven_of_int by (simp add: ulp x_def)
  have small: "x < 2 powi 1024"
  proof -
    have "x < 2 powi 53" by fact
    also have "(2::rat) powi 53 \<le> 2 powi 1024" by (rule power_int_increasing) simp_all
    finally show ?thesis .
  qed
  have ax: "\<bar>of_int k :: rat\<bar> = x" by (simp add: x_def)
  have nz: "(of_int k :: rat) \<noteq> 0" using False by simp
  have "binary64 (of_int k) = Num (if 0 < (of_int k :: rat) then x else - x)"
    using small y unfolding binary64_unfold [OF nz] ax e_def [symmetric] ulp_def [symmetric]
    by (simp only: not_le [symmetric] if_False)
  also have "(if 0 < (of_int k :: rat) then x else - x) = of_int k"
    by (simp add: x_def)
  finally show ?thesis .
qed

text \<open>
  The rounded magnitude reaches \<open>2^1024\<close> exactly when its binary exponent reaches 1024;
  evaluation tests the exponent.
\<close>

lemma roundHalfEven_nonneg: "0 \<le> q \<Longrightarrow> 0 \<le> roundHalfEven q"
proof -
  assume "0 \<le> q"
  then have "0 \<le> \<lfloor>q\<rfloor>" by simp
  then show ?thesis by (simp add: roundHalfEven_def Let_def)
qed

lemma exponentOf_overflow:
  assumes "0 \<le> y"
  shows "(2 powi 1024 \<le> y) = (1024 \<le> exponentOf y)"
proof (cases "y = 0")
  case True
  then show ?thesis using bitlen_nonneg [of 1] by (simp add: exponentOf_def Let_def)
next
  case False
  with assms have y: "0 < y" by simp
  show ?thesis
  proof
    assume "2 powi 1024 \<le> y"
    with y show "1024 \<le> exponentOf y" by (rule exponentOf_ge)
  next
    assume "1024 \<le> exponentOf y"
    then have "(2::rat) powi 1024 \<le> 2 powi (exponentOf y)" by (rule power_int_increasing) simp
    also have "\<dots> \<le> y" using y by (rule exponentOf_bracket(1))
    finally show "2 powi 1024 \<le> y" .
  qed
qed

lemma binary64_code [code]:
  "binary64 x =
     (if x = 0 then Num 0
      else
        let e = max (exponentOf \<bar>x\<bar>) (- 1022);
            ulp = 2 powi (e - 52);
            y = of_int (roundHalfEven (\<bar>x\<bar> / ulp)) * ulp
        in if 1024 \<le> exponentOf y then (if 0 < x then PosInf else NegInf)
           else Num (if 0 < x then y else - y))"
proof -
  define ulp where "ulp = (2::rat) powi (max (exponentOf \<bar>x\<bar>) (- 1022) - 52)"
  have "0 < ulp" by (simp add: ulp_def)
  then have "0 \<le> \<bar>x\<bar> / ulp" by simp
  then have "0 \<le> roundHalfEven (\<bar>x\<bar> / ulp)" by (rule roundHalfEven_nonneg)
  with \<open>0 < ulp\<close> have "0 \<le> of_int (roundHalfEven (\<bar>x\<bar> / ulp)) * ulp" by simp
  then have "(2 powi 1024 \<le> of_int (roundHalfEven (\<bar>x\<bar> / ulp)) * ulp) =
      (1024 \<le> exponentOf (of_int (roundHalfEven (\<bar>x\<bar> / ulp)) * ulp))"
    by (rule exponentOf_overflow)
  then show ?thesis unfolding binary64_def Let_def ulp_def by (simp only:)
qed

text \<open>
  The base units of scenario S1, and three amounts whose double product with \<open>10^8\<close> is not
  the exact product: \<open>0.000000015\<close> gives 1 base unit (the exact product is \<open>1.5\<close>),
  \<open>70000000.00000002\<close> gives \<open>7000000000000001\<close> and \<open>276033942.91348257\<close> gives
  \<open>27603394291348256\<close>.
\<close>

lemma toBaseUnit_S1:
  "toBaseUnit (BN (1 / 100)) = Num 1000000"
  "toBaseUnit (BN 10000) = Num 1000000000000"
  by code_simp+

lemma toBaseUnit_doubles:
  "toBaseUnit (BN (15 / 10 ^ 9)) = Num 1"
  "toBaseUnit (BN (7000000000000002 / 10 ^ 8)) = Num 7000000000000001"
  "toBaseUnit (BN (27603394291348257 / 10 ^ 8)) = Num 27603394291348256"
  by code_simp+

section \<open>Hub-side rejection\<close>

text \<open>
  Claim C1, as the code has it. Whatever the persisted status of the sub-order is (FILLED and
  CANCELED included), \<^verbatim>\<open>onSubOrderStatusAccepted\<close> with \<^verbatim>\<open>data.status = REJECTED\<close> leaves
  it persisted with status REJECTED and \<^verbatim>\<open>sentToAggregator = true\<close>: the only status the
  hub's rejection does not move is REJECTED itself.
\<close>

theorem onSubOrderStatusAccepted_rejected:
  assumes "getSubOrderById (db this) i = Some s"
  shows "getSubOrderById
           (db (snd (onSubOrderStatusAccepted \<lparr>ssa_id = i, ssa_status = REJECTED\<rparr> this))) i
         = Some (s\<lparr>so_status := REJECTED, so_sentToAggregator := True\<rparr>)"
proof -
  have i: "so_id s = i" using assms by (rule getSubOrderById_id)
  show ?thesis
  proof (cases "so_status s = REJECTED")
    case True
    then have "s\<lparr>so_sentToAggregator := True\<rparr> = s\<lparr>so_status := REJECTED, so_sentToAggregator := True\<rparr>"
      by simp
    with True assms i show ?thesis
      by (simp add: onSubOrderStatusAccepted_def Let_def db_sendToFrontend
          getSubOrderById_updateSubOrder)
  next
    case False
    with assms i show ?thesis
      by (simp add: onSubOrderStatusAccepted_def Let_def db_sendToFrontend
          getSubOrderById_updateSubOrder)
  qed
qed

text \<open>Scenario S3: a locally ACCEPTED sub-order is rejected by the hub.\<close>

theorem onSubOrderStatusAccepted_rejected_witness:
  "getSubOrderById (db (exampleBroker [subOrder1] [])) 1 = Some subOrder1
   \<and> getSubOrderById
        (db (snd (onSubOrderStatusAccepted \<lparr>ssa_id = 1, ssa_status = REJECTED\<rparr>
           (exampleBroker [subOrder1] [])))) 1
      = Some (subOrder1\<lparr>so_status := REJECTED, so_sentToAggregator := True\<rparr>)"
proof -
  have h: "getSubOrderById (db (exampleBroker [subOrder1] [])) 1 = Some subOrder1"
    by (simp add: exampleBroker_def subOrder1_def getSubOrderById_def)
  from h onSubOrderStatusAccepted_rejected [OF h] show ?thesis by simp
qed

text \<open>
  Claim C1 as stated fails: a persisted FILLED sub-order does regress to REJECTED when the hub
  reports REJECTED.
\<close>

theorem filled_regresses_to_rejected:
  "getSubOrderById (db (exampleBroker [subOrder1\<lparr>so_status := FILLED\<rparr>] [trade1])) 1
     = Some (subOrder1\<lparr>so_status := FILLED\<rparr>)
   \<and> map_option so_status
       (getSubOrderById
          (db (snd (onSubOrderStatusAccepted \<lparr>ssa_id = 1, ssa_status = REJECTED\<rparr>
             (exampleBroker [subOrder1\<lparr>so_status := FILLED\<rparr>] [trade1])))) 1)
     = Some REJECTED"
  by (simp add: exampleBroker_def subOrder1_def getSubOrderById_def onSubOrderStatusAccepted_def
      updateSubOrder_def sendToFrontend_def Let_def)

section \<open>The signed order\<close>

text \<open>
  Claim C2, as the code has it. The order that \<^verbatim>\<open>signTrade\<close> builds for a sub-order and
  its trade is the counter side of the sub-order: \<^verbatim>\<open>buySide = 0\<close> for a buy-side sub-order
  and \<^verbatim>\<open>buySide = 1\<close> for a sell-side one. Amount and price are
  \<^verbatim>\<open>Math.round(x.toNumber() * 10 ** 8)\<close> of the trade's amount and price \<open>x\<close>, in double
  arithmetic: for \<open>|x| * 10^8 \<le> 2^1000\<close> an integer \<open>n\<close> of base units with
  \<open>|n - x * 10^8| \<le> 1/2 + |x| * 10^8 / 2^51 + 2^-1000\<close>. \<^verbatim>\<open>matcherFee\<close> is 0, and
  \<^verbatim>\<open>expiration\<close> is the double sum of the sub-order's timestamp and
  \<open>29 * 24 * 60 * 60 * 1000\<close> ms, which is the exact sum when that is below \<open>2^53\<close> in
  magnitude.
\<close>

theorem signTrade_fields:
  assumes "tr_amount trade = BN a" and "tr_price trade = BN p"
  shows "bo_buySide (signTrade E this subOrder trade) =
           (if so_side subOrder = buy then Num 0 else Num 1)
       \<and> bo_amount (signTrade E this subOrder trade) =
           Math_round (times_number (binary64 a) (Num (10 ^ 8)))
       \<and> bo_price (signTrade E this subOrder trade) =
           Math_round (times_number (binary64 p) (Num (10 ^ 8)))
       \<and> bo_matcherFee (signTrade E this subOrder trade) = Num 0
       \<and> bo_expiration (signTrade E this subOrder trade) =
           binary64 (of_int (so_timestamp subOrder) + 29 * 24 * 60 * 60 * 1000)
       \<and> (\<bar>a\<bar> * 10 ^ 8 \<le> 2 ^ 1000 \<longrightarrow>
            (\<exists>n. bo_amount (signTrade E this subOrder trade) = Num (of_int n)
               \<and> \<bar>of_int n - a * 10 ^ 8\<bar> \<le> 1 / 2 + \<bar>a\<bar> * 10 ^ 8 / 2 ^ 51 + 1 / 2 ^ 1000))
       \<and> (\<bar>p\<bar> * 10 ^ 8 \<le> 2 ^ 1000 \<longrightarrow>
            (\<exists>n. bo_price (signTrade E this subOrder trade) = Num (of_int n)
               \<and> \<bar>of_int n - p * 10 ^ 8\<bar> \<le> 1 / 2 + \<bar>p\<bar> * 10 ^ 8 / 2 ^ 51 + 1 / 2 ^ 1000))
       \<and> (\<bar>so_timestamp subOrder + 29 * 24 * 60 * 60 * 1000\<bar> < 2 ^ 53 \<longrightarrow>
            bo_expiration (signTrade E this subOrder trade) =
              Num (of_int (so_timestamp subOrder + 29 * 24 * 60 * 60 * 1000)))"
proof -
  have side: "bo_buySide (signTrade E this subOrder trade) =
      (if so_side subOrder = buy then Num 0 else Num 1)"
    by (simp add: signTrade_def createBlockchainOrder_def counterSide_def Let_def)
  have am: "bo_amount (signTrade E this subOrder trade) = toBaseUnit (BN a)"
    using assms(1) by (simp add: signTrade_def createBlockchainOrder_def Let_def)
  have pr: "bo_price (signTrade E this subOrder trade) = toBaseUnit (BN p)"
    using assms(2) by (simp add: signTrade_def createBlockchainOrder_def Let_def)
  have fee: "bo_matcherFee (signTrade E this subOrder trade) = Num 0"
    by (simp add: signTrade_def createBlockchainOrder_def Let_def)
  have ex: "bo_expiration (signTrade E this subOrder trade) =
      binary64 (of_int (so_timestamp subOrder) + 29 * 24 * 60 * 60 * 1000)"
    by (simp add: signTrade_def createBlockchainOrder_def DEFAULT_EXPIRATION_def Let_def)
  have tb: "toBaseUnit (BN x) = Math_round (times_number (binary64 x) (Num (10 ^ 8)))" for x
    by (simp only: toBaseUnit_def toNumber.simps)
  have am_bound: "\<exists>n. bo_amount (signTrade E this subOrder trade) = Num (of_int n)
      \<and> \<bar>of_int n - a * 10 ^ 8\<bar> \<le> 1 / 2 + \<bar>a\<bar> * 10 ^ 8 / 2 ^ 51 + 1 / 2 ^ 1000"
    if "\<bar>a\<bar> * 10 ^ 8 \<le> 2 ^ 1000"
    unfolding am using that by (rule toBaseUnit_bound)
  have pr_bound: "\<exists>n. bo_price (signTrade E this subOrder trade) = Num (of_int n)
      \<and> \<bar>of_int n - p * 10 ^ 8\<bar> \<le> 1 / 2 + \<bar>p\<bar> * 10 ^ 8 / 2 ^ 51 + 1 / 2 ^ 1000"
    if "\<bar>p\<bar> * 10 ^ 8 \<le> 2 ^ 1000"
    unfolding pr using that by (rule toBaseUnit_bound)
  have ex_exact: "bo_expiration (signTrade E this subOrder trade) =
      Num (of_int (so_timestamp subOrder + 29 * 24 * 60 * 60 * 1000))"
    if "\<bar>so_timestamp subOrder + 29 * 24 * 60 * 60 * 1000\<bar> < 2 ^ 53"
  proof -
    have "binary64 (of_int (so_timestamp subOrder + 29 * 24 * 60 * 60 * 1000)) =
        Num (of_int (so_timestamp subOrder + 29 * 24 * 60 * 60 * 1000))"
      using that by (rule binary64_of_int)
    moreover have "(of_int (so_timestamp subOrder + 29 * 24 * 60 * 60 * 1000) :: rat) =
        of_int (so_timestamp subOrder) + 29 * 24 * 60 * 60 * 1000"
      by simp
    ultimately show ?thesis unfolding ex by (simp only:)
  qed
  from side am [unfolded tb] pr [unfolded tb] fee ex am_bound pr_bound ex_exact
  show ?thesis by (intro conjI impI)
qed

text \<open>
  Scenario S1: amount \<open>0.01\<close> and price \<open>10000\<close> give \<open>1000000\<close> and \<open>1000000000000\<close>
  base units; the sub-order buys, the signed order has \<^verbatim>\<open>buySide = 0\<close>; the timestamp
  \<open>1600000000000\<close> gives the expiration \<open>1602505600000\<close>.
\<close>

theorem signTrade_fields_witness:
  "tr_amount trade1 = BN (1 / 100) \<and> tr_price trade1 = BN 10000 \<and> so_side subOrder1 = buy
   \<and> \<bar>1 / 100 :: rat\<bar> * 10 ^ 8 \<le> 2 ^ 1000 \<and> \<bar>10000 :: rat\<bar> * 10 ^ 8 \<le> 2 ^ 1000
   \<and> \<bar>so_timestamp subOrder1 + 29 * 24 * 60 * 60 * 1000\<bar> < 2 ^ 53
   \<and> bo_buySide (signTrade exampleEnv exampleChain subOrder1 trade1) = Num 0
   \<and> bo_amount (signTrade exampleEnv exampleChain subOrder1 trade1) = Num 1000000
   \<and> bo_price (signTrade exampleEnv exampleChain subOrder1 trade1) = Num 1000000000000
   \<and> bo_matcherFee (signTrade exampleEnv exampleChain subOrder1 trade1) = Num 0
   \<and> bo_expiration (signTrade exampleEnv exampleChain subOrder1 trade1) = Num 1602505600000"
proof -
  have a: "tr_amount trade1 = BN (1 / 100)" and p: "tr_price trade1 = BN 10000"
    by (simp_all add: trade1_def)
  have b: "so_side subOrder1 = buy" and ts: "so_timestamp subOrder1 = 1600000000000"
    by (simp_all add: subOrder1_def)
  have ha: "\<bar>1 / 100 :: rat\<bar> * 10 ^ 8 \<le> 2 ^ 1000" and hp: "\<bar>10000 :: rat\<bar> * 10 ^ 8 \<le> 2 ^ 1000"
    by simp_all
  have ht: "\<bar>so_timestamp subOrder1 + 29 * 24 * 60 * 60 * 1000\<bar> < 2 ^ 53"
    by (simp add: ts)
  note t = signTrade_fields [OF a p, of exampleEnv exampleChain subOrder1]
  from t have side: "bo_buySide (signTrade exampleEnv exampleChain subOrder1 trade1) = Num 0"
    by (simp add: b)
  have "bo_amount (signTrade exampleEnv exampleChain subOrder1 trade1) =
      Math_round (times_number (binary64 (1 / 100)) (Num (10 ^ 8)))"
    by (rule t [THEN conjunct2, THEN conjunct1])
  also have "\<dots> = Num 1000000"
    using toBaseUnit_S1(1) by (simp only: toBaseUnit_def toNumber.simps)
  finally have am: "bo_amount (signTrade exampleEnv exampleChain subOrder1 trade1) = Num 1000000" .
  have "bo_price (signTrade exampleEnv exampleChain subOrder1 trade1) =
      Math_round (times_number (binary64 10000) (Num (10 ^ 8)))"
    by (rule t [THEN conjunct2, THEN conjunct2, THEN conjunct1])
  also have "\<dots> = Num 1000000000000"
    using toBaseUnit_S1(2) by (simp only: toBaseUnit_def toNumber.simps)
  finally have pr: "bo_price (signTrade exampleEnv exampleChain subOrder1 trade1) =
      Num 1000000000000" .
  have fee: "bo_matcherFee (signTrade exampleEnv exampleChain subOrder1 trade1) = Num 0"
    by (rule t [THEN conjunct2, THEN conjunct2, THEN conjunct2, THEN conjunct1])
  have "bo_expiration (signTrade exampleEnv exampleChain subOrder1 trade1) =
      Num (of_int (so_timestamp subOrder1 + 29 * 24 * 60 * 60 * 1000))"
    using t [THEN conjunct2, THEN conjunct2, THEN conjunct2, THEN conjunct2, THEN conjunct2,
        THEN conjunct2, THEN conjunct2] ht
    by (rule mp)
  then have ex: "bo_expiration (signTrade exampleEnv exampleChain subOrder1 trade1) =
      Num 1602505600000"
    by (simp add: ts)
  from a p b ha hp ht side am pr fee ex show ?thesis by (intro conjI)
qed

text \<open>
  Claim C2 as stated fails: for the buy-side sub-order of scenario S1 and its FILLED trade
  the signed order does not have \<^verbatim>\<open>buySide = 1\<close>.
\<close>

theorem buy_side_not_one:
  "so_side subOrder1 = buy \<and> tr_status trade1 = FILLED
   \<and> bo_buySide (signTrade exampleEnv exampleChain subOrder1 trade1) \<noteq> Num 1"
  by (simp add: trade1_def subOrder1_def signTrade_def createBlockchainOrder_def
      counterSide_def Let_def)

text \<open>
  Claim C9. The id and the signature of the order that \<^verbatim>\<open>signTrade\<close> returns depend on
  the sub-order, the trade, the chain client's key and addresses, the token registry and the
  two library functions (keccak-256 and the typed-data signature, both functions of their
  arguments) only: two environments that agree on these, and differ in the clock and in every
  answer of the venues, the gateway and the hub, give the same order.
\<close>

theorem signTrade_deterministic:
  assumes "keccak256 E' = keccak256 E" and "signTypedMessage E' = signTypedMessage E"
    and "symbolToAddresses E' = symbolToAddresses E" and "nameToAddress E' = nameToAddress E"
  shows "bo_id (signTrade E' this subOrder trade) = bo_id (signTrade E this subOrder trade)
       \<and> bo_signature (signTrade E' this subOrder trade) =
           bo_signature (signTrade E this subOrder trade)"
  using assms
  by (simp add: signTrade_def createBlockchainOrder_def hashOrder_def soliditySha3_def
      signOrder_def Let_def)

text \<open>The same trade signed at another time, with another venue response on record.\<close>

theorem signTrade_deterministic_witness:
  "Date_now (exampleEnv\<lparr>Date_now := (\<lambda>h. 1700000000000), execute := (\<lambda>h m a s. Inl (External ''gas''))\<rparr>) []
     \<noteq> Date_now exampleEnv []
   \<and> bo_id (signTrade (exampleEnv\<lparr>Date_now := (\<lambda>h. 1700000000000),
                                  execute := (\<lambda>h m a s. Inl (External ''gas''))\<rparr>)
              exampleChain subOrder1 trade1)
     = bo_id (signTrade exampleEnv exampleChain subOrder1 trade1)
   \<and> bo_signature (signTrade (exampleEnv\<lparr>Date_now := (\<lambda>h. 1700000000000),
                                  execute := (\<lambda>h m a s. Inl (External ''gas''))\<rparr>)
              exampleChain subOrder1 trade1)
     = bo_signature (signTrade exampleEnv exampleChain subOrder1 trade1)"
proof -
  let ?E' = "exampleEnv\<lparr>Date_now := (\<lambda>h. 1700000000000),
                         execute := (\<lambda>h m a s. Inl (External ''gas''))\<rparr>"
  have "keccak256 ?E' = keccak256 exampleEnv"
    and "signTypedMessage ?E' = signTypedMessage exampleEnv"
    and "symbolToAddresses ?E' = symbolToAddresses exampleEnv"
    and "nameToAddress ?E' = nameToAddress exampleEnv"
    by simp_all
  from signTrade_deterministic [OF this, of exampleChain subOrder1 trade1]
  show ?thesis by (simp add: exampleEnv_def)
qed

section \<open>Creating and checking a sub-order\<close>

lemma subOrderTrades_tradesOf:
  "so_exchangeOrderId s \<noteq> Some [] \<Longrightarrow> subOrderTrades d s = tradesOf d s"
  by (cases "so_exchangeOrderId s")
     (auto simp: subOrderTrades_def tradesOf_def getSubOrderTrades_def intro: filter_cong)

text \<open>
  Claim C5. For an id that is not persisted \<^verbatim>\<open>onCheckSubOrder\<close> returns
  \<open>{id, status = null, filledAmount = "0"}\<close>. For a persisted sub-order that has at most one
  trade (the model of the specification; with more trades the code throws) and whose venue
  order id is not the empty string, it returns the sub-order's \<^verbatim>\<open>filledAmount\<close> (as a
  string), the status with PREPARE reported as ACCEPTED, and a \<^verbatim>\<open>blockchainOrder\<close>, the
  signed trade, that is present if and only if a trade of the sub-order is stored.
\<close>

theorem onCheckSubOrder_result:
  "(getSubOrderById (db this) i = None \<longrightarrow>
      onCheckSubOrder E this i =
        Inr \<lparr>st_id = i, st_status = None, st_filledAmount = ''0'', st_blockchainOrder = None\<rparr>)
   \<and> (\<forall>s. getSubOrderById (db this) i = Some s \<and> so_exchangeOrderId s \<noteq> Some []
          \<and> length (tradesOf (db this) s) \<le> 1 \<longrightarrow>
        onCheckSubOrder E this i =
          Inr \<lparr>st_id = i,
               st_status = Some (if so_status s = PREPARE then ACCEPTED else so_status s),
               st_filledAmount = toString E (so_filledAmount s),
               st_blockchainOrder =
                 (case tradesOf (db this) s of
                    [] \<Rightarrow> None
                  | t # _ \<Rightarrow> Some (signTrade E (orionBlockchain this) s t))\<rparr>
        \<and> ((\<exists>r. onCheckSubOrder E this i = Inr r \<and> st_blockchainOrder r \<noteq> None) \<longleftrightarrow>
            (\<exists>t \<in> set (trades (db this)).
               tr_exchange t = so_exchange s \<and> so_exchangeOrderId s = Some (tr_exchangeOrderId t))))"
proof (intro conjI allI impI)
  assume "getSubOrderById (db this) i = None"
  then show "onCheckSubOrder E this i =
        Inr \<lparr>st_id = i, st_status = None, st_filledAmount = ''0'', st_blockchainOrder = None\<rparr>"
    by (simp add: onCheckSubOrder_def)
next
  fix s
  assume a: "getSubOrderById (db this) i = Some s \<and> so_exchangeOrderId s \<noteq> Some []
          \<and> length (tradesOf (db this) s) \<le> 1"
  then have t: "subOrderTrades (db this) s = tradesOf (db this) s"
    by (simp add: subOrderTrades_tradesOf)
  show r: "onCheckSubOrder E this i =
          Inr \<lparr>st_id = i,
               st_status = Some (if so_status s = PREPARE then ACCEPTED else so_status s),
               st_filledAmount = toString E (so_filledAmount s),
               st_blockchainOrder =
                 (case tradesOf (db this) s of
                    [] \<Rightarrow> None
                  | t # _ \<Rightarrow> Some (signTrade E (orionBlockchain this) s t))\<rparr>"
    using a by (simp add: onCheckSubOrder_def t Let_def)
  have "(tradesOf (db this) s \<noteq> []) \<longleftrightarrow>
      (\<exists>t \<in> set (trades (db this)).
               tr_exchange t = so_exchange s \<and> so_exchangeOrderId s = Some (tr_exchangeOrderId t))"
    by (auto simp: tradesOf_def filter_empty_conv)
  moreover have "(\<exists>r. onCheckSubOrder E this i = Inr r \<and> st_blockchainOrder r \<noteq> None) \<longleftrightarrow>
      (tradesOf (db this) s \<noteq> [])"
    by (cases "tradesOf (db this) s") (simp_all add: r)
  ultimately show "(\<exists>r. onCheckSubOrder E this i = Inr r \<and> st_blockchainOrder r \<noteq> None) \<longleftrightarrow>
            (\<exists>t \<in> set (trades (db this)).
               tr_exchange t = so_exchange s \<and> so_exchangeOrderId s = Some (tr_exchangeOrderId t))"
    by simp
qed

text \<open>
  An id that was never persisted, sub-order 1 while it is in PREPARE, and sub-order 1 after
  its fill (scenario S1).
\<close>

theorem onCheckSubOrder_result_witness:
  "getSubOrderById (db (exampleBroker [] [])) 7 = None
   \<and> onCheckSubOrder exampleEnv (exampleBroker [] []) 7 =
       Inr \<lparr>st_id = 7, st_status = None, st_filledAmount = ''0'', st_blockchainOrder = None\<rparr>
   \<and> getSubOrderById
       (db (exampleBroker [subOrder1\<lparr>so_exchangeOrderId := None, so_status := PREPARE\<rparr>] [])) 1 =
       Some (subOrder1\<lparr>so_exchangeOrderId := None, so_status := PREPARE\<rparr>)
   \<and> onCheckSubOrder exampleEnv
       (exampleBroker [subOrder1\<lparr>so_exchangeOrderId := None, so_status := PREPARE\<rparr>] []) 1 =
       Inr \<lparr>st_id = 1, st_status = Some ACCEPTED, st_filledAmount = ''0'',
            st_blockchainOrder = None\<rparr>
   \<and> getSubOrderById
       (db (exampleBroker [subOrder1\<lparr>so_status := FILLED, so_filledAmount := BN (1 / 100)\<rparr>]
          [trade1])) 1 =
       Some (subOrder1\<lparr>so_status := FILLED, so_filledAmount := BN (1 / 100)\<rparr>)
   \<and> onCheckSubOrder exampleEnv
       (exampleBroker [subOrder1\<lparr>so_status := FILLED, so_filledAmount := BN (1 / 100)\<rparr>]
          [trade1]) 1 =
       Inr \<lparr>st_id = 1, st_status = Some FILLED, st_filledAmount = ''1'',
            st_blockchainOrder =
              Some (signTrade exampleEnv exampleChain
                (subOrder1\<lparr>so_status := FILLED, so_filledAmount := BN (1 / 100)\<rparr>) trade1)\<rparr>"
proof -
  let ?P = "subOrder1\<lparr>so_exchangeOrderId := None, so_status := PREPARE\<rparr>"
  let ?F = "subOrder1\<lparr>so_status := FILLED, so_filledAmount := BN (1 / 100)\<rparr>"
  have n: "getSubOrderById (db (exampleBroker [] [])) 7 = None"
    by (simp add: exampleBroker_def getSubOrderById_def)
  have p: "getSubOrderById (db (exampleBroker [?P] [])) 1 = Some ?P
           \<and> so_exchangeOrderId ?P \<noteq> Some [] \<and> length (tradesOf (db (exampleBroker [?P] [])) ?P) \<le> 1"
    by (simp add: exampleBroker_def getSubOrderById_def subOrder1_def tradesOf_def)
  have f: "getSubOrderById (db (exampleBroker [?F] [trade1])) 1 = Some ?F
           \<and> so_exchangeOrderId ?F \<noteq> Some []
           \<and> length (tradesOf (db (exampleBroker [?F] [trade1])) ?F) \<le> 1"
    by (simp add: exampleBroker_def getSubOrderById_def subOrder1_def tradesOf_def)
  have tp: "tradesOf (db (exampleBroker [?P] [])) ?P = []"
    by (simp add: exampleBroker_def tradesOf_def)
  have tf: "tradesOf (db (exampleBroker [?F] [trade1])) ?F = [trade1]"
    by (simp add: exampleBroker_def tradesOf_def subOrder1_def trade1_def)
  have "onCheckSubOrder exampleEnv (exampleBroker [] []) 7 =
       Inr \<lparr>st_id = 7, st_status = None, st_filledAmount = ''0'', st_blockchainOrder = None\<rparr>"
    using onCheckSubOrder_result [of "exampleBroker [] []" 7 exampleEnv] n by blast
  moreover have "onCheckSubOrder exampleEnv (exampleBroker [?P] []) 1 =
       Inr \<lparr>st_id = 1, st_status = Some ACCEPTED, st_filledAmount = ''0'',
            st_blockchainOrder = None\<rparr>"
    using onCheckSubOrder_result [of "exampleBroker [?P] []" 1 exampleEnv, THEN conjunct2,
        THEN spec, THEN mp, OF p, THEN conjunct1]
    by (simp add: tp) (simp add: subOrder1_def exampleEnv_def)
  moreover have "onCheckSubOrder exampleEnv (exampleBroker [?F] [trade1]) 1 =
       Inr \<lparr>st_id = 1, st_status = Some FILLED, st_filledAmount = ''1'',
            st_blockchainOrder = Some (signTrade exampleEnv exampleChain ?F trade1)\<rparr>"
    using onCheckSubOrder_result [of "exampleBroker [?F] [trade1]" 1 exampleEnv, THEN conjunct2,
        THEN spec, THEN mp, OF f, THEN conjunct1]
    by (simp add: tf) (simp add: subOrder1_def exampleEnv_def exampleBroker_def)
  ultimately show ?thesis using n p f by simp
qed

lemma onCreate_exists:
  "\<exists>s. getSubOrderById (db (snd (onCreateSubOrder E request this))) (cr_id request) = Some s"
proof (cases "getSubOrderById (db this) (cr_id request)")
  case None
  then show ?thesis
    by (simp add: onCreateSubOrder_def Let_def db_sendToFrontend
        getSubOrderById_insertSubOrder getSubOrderById_updateSubOrder
        split: sum.splits)
next
  case (Some s)
  then show ?thesis by (simp add: onCreateSubOrder_def)
qed

lemma onCreate_known:
  "getSubOrderById (db this) (cr_id request) = Some s \<Longrightarrow>
   onCreateSubOrder E request this = (onCheckSubOrder E this (cr_id request), this)"
  by (simp add: onCreateSubOrder_def)

lemma onCreate_fst:
  "fst (onCreateSubOrder E request this) =
   onCheckSubOrder E (snd (onCreateSubOrder E request this)) (cr_id request)"
  by (cases "getSubOrderById (db this) (cr_id request)")
     (simp_all add: onCreateSubOrder_def Let_def split: sum.splits)

lemma onCreate_calls:
  "getSubOrderById (db this) (cr_id request) = None \<Longrightarrow>
   \<exists>s. calls (snd (onCreateSubOrder E request this)) =
     calls this @ [SubmitSubOrder (cr_exchange request) (cr_id request) (cr_symbol request)
                     (cr_side request) (cr_amount request) (cr_price request),
                   SendToFrontend s]"
  by (simp add: onCreateSubOrder_def Let_def sendToFrontend_def split: sum.splits)

text \<open>
  Claim C3. A second \<^verbatim>\<open>onCreateSubOrder(req)\<close> right after the first returns the
  \<^verbatim>\<open>SubOrderStatus\<close> that the first returned and leaves the whole state of the broker
  (the store and the history of commands) as the first call left it. When no sub-order with
  \<^verbatim>\<open>req.id\<close> was persisted before the first call, the two calls together invoke the
  adapter's \<^verbatim>\<open>submitSubOrder\<close> exactly once.
\<close>

theorem onCreateSubOrder_idempotent:
  "onCreateSubOrder E request (snd (onCreateSubOrder E request this)) =
     (fst (onCreateSubOrder E request this), snd (onCreateSubOrder E request this))
   \<and> (getSubOrderById (db this) (cr_id request) = None \<longrightarrow>
        length (filter isSubmitSubOrder
          (calls (snd (onCreateSubOrder E request (snd (onCreateSubOrder E request this)))))) =
        length (filter isSubmitSubOrder (calls this)) + 1)"
proof -
  obtain s where
    s: "getSubOrderById (db (snd (onCreateSubOrder E request this))) (cr_id request) = Some s"
    using onCreate_exists by blast
  have twice: "onCreateSubOrder E request (snd (onCreateSubOrder E request this)) =
     (fst (onCreateSubOrder E request this), snd (onCreateSubOrder E request this))"
    using onCreate_known [OF s] by (simp add: onCreate_fst [symmetric])
  have "length (filter isSubmitSubOrder (calls (snd (onCreateSubOrder E request this)))) =
        length (filter isSubmitSubOrder (calls this)) + 1"
    if "getSubOrderById (db this) (cr_id request) = None"
    using onCreate_calls [OF that, of E] by (auto simp: isSubmitSubOrder_def)
  with twice show ?thesis by simp
qed

text \<open>Scenario S4: two back-to-back creations of sub-order 4 on an empty store.\<close>

theorem onCreateSubOrder_idempotent_witness:
  "getSubOrderById (db (exampleBroker [] [])) (cr_id request4) = None
   \<and> length (filter isSubmitSubOrder
        (calls (snd (onCreateSubOrder exampleEnv request4
           (snd (onCreateSubOrder exampleEnv request4 (exampleBroker [] []))))))) = 1"
proof -
  have fresh: "getSubOrderById (db (exampleBroker [] [])) (cr_id request4) = None"
    by (simp add: exampleBroker_def getSubOrderById_def)
  have none: "calls (exampleBroker [] []) = []"
    by (simp add: exampleBroker_def)
  have "length (filter isSubmitSubOrder
        (calls (snd (onCreateSubOrder exampleEnv request4
           (snd (onCreateSubOrder exampleEnv request4 (exampleBroker [] []))))))) =
        length (filter isSubmitSubOrder (calls (exampleBroker [] []))) + 1"
    using onCreateSubOrder_idempotent [of exampleEnv request4 "exampleBroker [] []", THEN conjunct2]
      fresh by (rule mp)
  with fresh none show ?thesis by simp
qed

section \<open>Trades\<close>

lemma db_onTrade_accept:
  assumes "getSubOrder (db this) (tr_exchange trade) (tr_exchangeOrderId trade) = Some s"
    and "tr_status trade = FILLED \<or> tr_status trade = CANCELED"
    and "tr_status trade = FILLED \<longrightarrow> eq (so_amount s) (tr_amount trade)"
  shows "db (snd (onTrade E trade this)) =
     updateSubOrder
       (if gt (tr_amount trade) (BN 0) then insertTrade (db this) trade else db this)
       (s\<lparr>so_filledAmount := tr_amount trade, so_status := tr_status trade\<rparr>)"
  using assms
  by (auto simp: onTrade_def Let_def db_sendToFrontend split: sum.splits)

text \<open>
  Claim C4. Let the trade event belong to a stored sub-order. If its status is FILLED and its
  amount is not the sub-order's amount, \<^verbatim>\<open>onTrade\<close> fails (the exception is logged) and
  the state of the broker is the one before the call: no trade is inserted and the sub-order
  is unchanged. If the trade is accepted (FILLED with the sub-order's amount, or CANCELED), the
  persisted sub-order gets \<^verbatim>\<open>filledAmount = trade.amount\<close> and
  \<^verbatim>\<open>status = trade.status\<close>, and the trade is inserted if and only if that amount is
  greater than 0.
\<close>

theorem onTrade_partial_fill_or_accept:
  assumes "getSubOrder (db this) (tr_exchange trade) (tr_exchangeOrderId trade) = Some s"
  shows "(tr_status trade = FILLED \<and> \<not> eq (so_amount s) (tr_amount trade) \<longrightarrow>
            onTrade E trade this = (Inl (PartialTrade (so_id s)), this))
       \<and> ((tr_status trade = FILLED \<and> eq (so_amount s) (tr_amount trade))
            \<or> tr_status trade = CANCELED \<longrightarrow>
            getSubOrderById (db (snd (onTrade E trade this))) (so_id s) =
              Some (s\<lparr>so_filledAmount := tr_amount trade, so_status := tr_status trade\<rparr>)
          \<and> trades (db (snd (onTrade E trade this))) =
              (if gt (tr_amount trade) (BN 0) then trades (db this) @ [trade]
               else trades (db this)))"
proof (intro conjI impI)
  assume "tr_status trade = FILLED \<and> \<not> eq (so_amount s) (tr_amount trade)"
  with assms show "onTrade E trade this = (Inl (PartialTrade (so_id s)), this)"
    by (simp add: onTrade_def)
next
  assume a: "(tr_status trade = FILLED \<and> eq (so_amount s) (tr_amount trade))
    \<or> tr_status trade = CANCELED"
  then have d: "db (snd (onTrade E trade this)) =
     updateSubOrder
       (if gt (tr_amount trade) (BN 0) then insertTrade (db this) trade else db this)
       (s\<lparr>so_filledAmount := tr_amount trade, so_status := tr_status trade\<rparr>)"
    using db_onTrade_accept [OF assms, of E] by auto
  obtain r where r: "getSubOrderById (db this) (so_id s) = Some r"
    using getSubOrder_id [OF assms] by auto
  show "getSubOrderById (db (snd (onTrade E trade this))) (so_id s) =
              Some (s\<lparr>so_filledAmount := tr_amount trade, so_status := tr_status trade\<rparr>)"
  proof -
    have "getSubOrderById (insertTrade (db this) trade) (so_id s) = Some r"
      using r by (simp add: getSubOrderById_def insertTrade_def)
    with r getSubOrderById_id [OF r] show ?thesis
      by (simp add: d getSubOrderById_updateSubOrder)
  qed
  show "trades (db (snd (onTrade E trade this))) =
              (if gt (tr_amount trade) (BN 0) then trades (db this) @ [trade]
               else trades (db this))"
    by (simp add: d updateSubOrder_def insertTrade_def)
qed

text \<open>
  Sub-order 1 (amount \<open>0.01\<close>, ACCEPTED): a FILLED trade of \<open>0.005\<close> is refused and nothing
  changes; the FILLED trade of \<open>0.01\<close> of scenario S1 is stored and fills the sub-order; a
  CANCELED trade of amount 0 cancels it and no trade is stored.
\<close>

theorem onTrade_partial_fill_or_accept_witness:
  "getSubOrder (db (exampleBroker [subOrder1] [])) ''X'' ''e1'' = Some subOrder1
   \<and> onTrade exampleEnv (trade1\<lparr>tr_amount := BN (5 / 1000)\<rparr>) (exampleBroker [subOrder1] []) =
       (Inl (PartialTrade 1), exampleBroker [subOrder1] [])
   \<and> getSubOrderById (db (snd (onTrade exampleEnv trade1 (exampleBroker [subOrder1] [])))) 1 =
       Some (subOrder1\<lparr>so_filledAmount := BN (1 / 100), so_status := FILLED\<rparr>)
   \<and> trades (db (snd (onTrade exampleEnv trade1 (exampleBroker [subOrder1] [])))) = [trade1]
   \<and> getSubOrderById
       (db (snd (onTrade exampleEnv (trade1\<lparr>tr_amount := BN 0, tr_status := CANCELED\<rparr>)
          (exampleBroker [subOrder1] [])))) 1 =
       Some (subOrder1\<lparr>so_filledAmount := BN 0, so_status := CANCELED\<rparr>)
   \<and> trades
       (db (snd (onTrade exampleEnv (trade1\<lparr>tr_amount := BN 0, tr_status := CANCELED\<rparr>)
          (exampleBroker [subOrder1] [])))) = []"
proof -
  let ?B = "exampleBroker [subOrder1] []"
  let ?half = "trade1\<lparr>tr_amount := BN (5 / 1000)\<rparr>"
  let ?cancel = "trade1\<lparr>tr_amount := BN 0, tr_status := CANCELED\<rparr>"
  have g: "getSubOrder (db ?B) ''X'' ''e1'' = Some subOrder1"
    by (simp add: exampleBroker_def getSubOrder_def subOrder1_def)
  have g1: "getSubOrder (db ?B) (tr_exchange trade1) (tr_exchangeOrderId trade1) = Some subOrder1"
    and g2: "getSubOrder (db ?B) (tr_exchange ?half) (tr_exchangeOrderId ?half) = Some subOrder1"
    and g3: "getSubOrder (db ?B) (tr_exchange ?cancel) (tr_exchangeOrderId ?cancel) = Some subOrder1"
    using g by (simp_all add: trade1_def)
  have "onTrade exampleEnv ?half ?B = (Inl (PartialTrade 1), ?B)"
    using onTrade_partial_fill_or_accept [OF g2, of exampleEnv, THEN conjunct1]
    by (simp add: trade1_def subOrder1_def)
  moreover have "getSubOrderById (db (snd (onTrade exampleEnv trade1 ?B))) 1 =
       Some (subOrder1\<lparr>so_filledAmount := BN (1 / 100), so_status := FILLED\<rparr>)
     \<and> trades (db (snd (onTrade exampleEnv trade1 ?B))) = [trade1]"
    using onTrade_partial_fill_or_accept [OF g1, of exampleEnv, THEN conjunct2]
    by (simp add: trade1_def subOrder1_def exampleBroker_def)
  moreover have "getSubOrderById (db (snd (onTrade exampleEnv ?cancel ?B))) 1 =
       Some (subOrder1\<lparr>so_filledAmount := BN 0, so_status := CANCELED\<rparr>)
     \<and> trades (db (snd (onTrade exampleEnv ?cancel ?B))) = []"
    using onTrade_partial_fill_or_accept [OF g3, of exampleEnv, THEN conjunct2]
    by (simp add: trade1_def subOrder1_def exampleBroker_def)
  ultimately show ?thesis using g by simp
qed

section \<open>Venue selection\<close>

lemma tryExchange_qualifying:
  "tryExchange E this (BN remaining) assetName exchange =
     map_option (Pair exchange) (qualifying E this remaining assetName exchange)"
  by (auto simp: tryExchange_def qualifying_def Let_def max_def
      split: sum.splits option.splits bool.splits BigNumber.splits)

text \<open>
  Claim C6. \<^verbatim>\<open>getExchangeForWithdraw\<close> returns the first venue, in the enumeration order
  of the balance snapshot, that qualifies (it supports withdrawal, has a valid withdraw limit,
  and its last known balance of the asset strictly exceeds
  \<open>amountWithFee = max (remaining + fee) min\<close>), together with that \<open>amountWithFee\<close>; it
  returns none when no venue of the snapshot qualifies. For an amount that is \<^verbatim>\<open>NaN\<close> it
  returns none.
\<close>

theorem getExchangeForWithdraw_first_qualifying:
  "getExchangeForWithdraw E this (BN remaining) assetName =
     Option.bind
       (List.find (\<lambda>exchange. qualifying E this remaining assetName exchange \<noteq> None)
          (map fst (lastBalances this)))
       (\<lambda>exchange. map_option (Pair exchange) (qualifying E this remaining assetName exchange))
   \<and> getExchangeForWithdraw E this BNaN assetName = None"
proof -
  have "tryExchange E this BNaN assetName exchange = None" for exchange
    by (auto simp: tryExchange_def Let_def split: sum.splits option.splits BigNumber.splits)
  then have "getExchangeForWithdraw_loop E this BNaN assetName exchanges = None" for exchanges
    by (induction exchanges) simp_all
  then have nan: "getExchangeForWithdraw E this BNaN assetName = None"
    by (simp add: getExchangeForWithdraw_def)
  have "getExchangeForWithdraw_loop E this (BN remaining) assetName exchanges =
     Option.bind
       (List.find (\<lambda>exchange. qualifying E this remaining assetName exchange \<noteq> None) exchanges)
       (\<lambda>exchange. map_option (Pair exchange) (qualifying E this remaining assetName exchange))"
    for exchanges
  proof (induction exchanges)
    case Nil
    show ?case by simp
  next
    case (Cons exchange exchanges)
    show ?case
    proof (cases "qualifying E this remaining assetName exchange")
      case None
      with Cons show ?thesis by (simp add: tryExchange_qualifying)
    next
      case (Some amountWithFee)
      then show ?thesis by (simp add: tryExchange_qualifying)
    qed
  qed
  with nan show ?thesis by (simp add: getExchangeForWithdraw_def)
qed

text \<open>
  Scenario S6: \<open>remaining = 100\<close>, the limit \<open>{min: 10, fee: 1}\<close> and 200 USDT on venue X
  select X with \<open>amountWithFee = 101\<close>; with \<open>remaining = 199\<close> the balance does not exceed
  200 and no venue is selected.
\<close>

theorem getExchangeForWithdraw_first_qualifying_witness:
  "getExchangeForWithdraw exampleEnv (exampleBroker [] []) (BN 100) ''USDT'' = Some (''X'', BN 101)
   \<and> getExchangeForWithdraw exampleEnv (exampleBroker [] []) (BN 199) ''USDT'' = None"
proof -
  have "qualifying exampleEnv (exampleBroker [] []) 100 ''USDT'' ''X'' = Some (BN 101)"
    by (simp add: qualifying_def exampleEnv_def exampleBroker_def)
  moreover have "qualifying exampleEnv (exampleBroker [] []) 199 ''USDT'' ''X'' = None"
    by (simp add: qualifying_def exampleEnv_def exampleBroker_def)
  moreover have "map fst (lastBalances (exampleBroker [] [])) = [''X'']"
    by (simp add: exampleBroker_def)
  ultimately show ?thesis
    using getExchangeForWithdraw_first_qualifying [of exampleEnv "exampleBroker [] []" 100 "''USDT''"]
      getExchangeForWithdraw_first_qualifying [of exampleEnv "exampleBroker [] []" 199 "''USDT''"]
    by simp
qed

section \<open>Liabilities\<close>

lemma liabilityFrame_refl: "liabilityFrame this this"
  by (simp add: liabilityFrame_def extends_def)

lemma liabilityFrame_depositETH:
  "liabilityFrame this
     (snd (case depositETH E amount this of
             (Inl e, this) \<Rightarrow> (Inl e, this)
           | (Inr transaction, this) \<Rightarrow>
               (Inr (), this\<lparr>db := insetTransaction (db this) transaction\<rparr>)))"
  by (cases "execute E (calls this) ''deposit'' amount ''ETH''")
     (simp_all add: depositETH_def Let_def liabilityFrame_def extends_def insetTransaction_def
       isDepositOrWithdrawal_def)

lemma liabilityFrame_depositERC20:
  "liabilityFrame this
     (snd (case depositERC20 E amount assetName this of
             (Inl e, this) \<Rightarrow> (Inl e, this)
           | (Inr transaction, this) \<Rightarrow>
               (Inr (), this\<lparr>db := insetTransaction (db this) transaction\<rparr>)))"
  by (cases "execute E (calls this) ''depositAsset'' amount assetName")
     (simp_all add: depositERC20_def Let_def liabilityFrame_def extends_def insetTransaction_def
       isDepositOrWithdrawal_def)

lemma liabilityFrame_deposit: "liabilityFrame this (snd (deposit E amount assetName this))"
  unfolding deposit_def
  by (simp add: liabilityFrame_refl liabilityFrame_depositETH liabilityFrame_depositERC20
      split: sum.splits option.splits)

lemma liabilityFrame_exchangeWithdraw:
  "liabilityFrame this (snd (exchangeWithdraw E exchange amount assetName this))"
  by (simp add: exchangeWithdraw_def Let_def liabilityFrame_def extends_def insertWithdraw_def
      isDepositOrWithdrawal_def split: option.splits)

lemma liabilityFrame_manageLiability:
  "liabilityFrame this (snd (manageLiability E liability this))"
  unfolding manageLiability_def Let_def
  by (simp add: liabilityFrame_refl liabilityFrame_deposit liabilityFrame_exchangeWithdraw
      split: sum.splits option.splits prod.splits)

text \<open>
  Claim C7. \<^verbatim>\<open>manageLiability\<close> returns with the state of the broker unchanged (no
  deposit transaction, no venue withdrawal, no row inserted) when a persisted transaction is
  PENDING, when a persisted withdrawal is pending, when the outstanding amount is not
  greater than 0, and when \<open>now - L.timestamp \<le> duePeriodSeconds\<close>. In every case the
  state after the call is within the frame: sub-orders, trades, the balance snapshot and the
  settings are unchanged; at most one command is given, a deposit or a venue withdrawal; at
  most one row is inserted, a PENDING transaction or a pending withdrawal, and only together
  with that command.
\<close>

theorem manageLiability_guard_and_frame:
  "((\<exists>t \<in> set (transactions (db this)). tx_status t = PENDING)
      \<or> (\<exists>w \<in> set (withdraws (db this)). wd_status w = pending)
      \<or> \<not> gt (li_outstandingAmount liability) (BN 0)
      \<or> of_int (Date_now E (calls this)) / 1000 - li_timestamp liability \<le> duePeriodSeconds this
     \<longrightarrow> manageLiability E liability this = (Inr (), this))
   \<and> liabilityFrame this (snd (manageLiability E liability this))"
proof (intro conjI impI)
  assume "(\<exists>t \<in> set (transactions (db this)). tx_status t = PENDING)
      \<or> (\<exists>w \<in> set (withdraws (db this)). wd_status w = pending)
      \<or> \<not> gt (li_outstandingAmount liability) (BN 0)
      \<or> of_int (Date_now E (calls this)) / 1000 - li_timestamp liability \<le> duePeriodSeconds this"
  then have "getPendingTransactions (db this) \<noteq> [] \<or> getWithdrawsToCheck (db this) \<noteq> []
      \<or> \<not> gt (li_outstandingAmount liability) (BN 0)
      \<or> of_int (Date_now E (calls this)) / 1000 - li_timestamp liability \<le> duePeriodSeconds this"
    by (auto simp: getPendingTransactions_def getWithdrawsToCheck_def filter_empty_conv)
  then show "manageLiability E liability this = (Inr (), this)"
    by (auto simp: manageLiability_def Let_def)
next
  show "liabilityFrame this (snd (manageLiability E liability this))"
    by (rule liabilityFrame_manageLiability)
qed

text \<open>
  The liability of scenario S6 with a PENDING transaction in the store: nothing happens.
  Without it (scenario S6): one withdrawal of 101 USDT from venue X to the broker's address,
  stored as pending.
\<close>

theorem manageLiability_guard_and_frame_witness:
  "tx_status pendingTransaction = PENDING
   \<and> transactions
       (db ((exampleBroker [] [])\<lparr>db := insetTransaction (db (exampleBroker [] [])) pendingTransaction\<rparr>))
     = [pendingTransaction]
   \<and> manageLiability exampleEnv liability6
       ((exampleBroker [] [])\<lparr>db := insetTransaction (db (exampleBroker [] [])) pendingTransaction\<rparr>)
      = (Inr (),
         (exampleBroker [] [])\<lparr>db := insetTransaction (db (exampleBroker [] [])) pendingTransaction\<rparr>)
   \<and> liabilityFrame (exampleBroker [] [])
        (snd (manageLiability exampleEnv liability6 (exampleBroker [] [])))
   \<and> calls (snd (manageLiability exampleEnv liability6 (exampleBroker [] []))) =
        [ExchangeWithdraw ''X'' ''USDT'' (BN 101) (replicate 20 0x33)]
   \<and> withdraws (db (snd (manageLiability exampleEnv liability6 (exampleBroker [] [])))) =
        [\<lparr>wd_exchangeWithdrawId = ''w1'', wd_exchange = ''X'', wd_currency = ''USDT'',
          wd_amount = BN 101, wd_status = pending\<rparr>]"
proof -
  let ?P = "(exampleBroker [] [])\<lparr>db := insetTransaction (db (exampleBroker [] [])) pendingTransaction\<rparr>"
  have p: "tx_status pendingTransaction = PENDING
      \<and> transactions (db ?P) = [pendingTransaction]"
    by (simp add: insetTransaction_def pendingTransaction_def exampleBroker_def)
  then have "\<exists>t \<in> set (transactions (db ?P)). tx_status t = PENDING"
    by simp
  then have "manageLiability exampleEnv liability6 ?P = (Inr (), ?P)"
    using manageLiability_guard_and_frame [of ?P liability6 exampleEnv] by blast
  moreover have "liabilityFrame (exampleBroker [] [])
        (snd (manageLiability exampleEnv liability6 (exampleBroker [] [])))"
    using manageLiability_guard_and_frame [of "exampleBroker [] []" liability6 exampleEnv] by blast
  moreover have g: "getExchangeForWithdraw exampleEnv (exampleBroker [] []) (BN 100) ''USDT'' =
      Some (''X'', BN 101)"
    by (simp add: getExchangeForWithdraw_def tryExchange_def exampleEnv_def exampleBroker_def)
  have m: "manageLiability exampleEnv liability6 (exampleBroker [] []) =
      exchangeWithdraw exampleEnv ''X'' (BN 101) ''USDT'' (exampleBroker [] [])"
    unfolding manageLiability_def Let_def
    using g by (simp add: liability6_def exampleEnv_def exampleBroker_def getPendingTransactions_def
        getWithdrawsToCheck_def)
  have "calls (snd (manageLiability exampleEnv liability6 (exampleBroker [] []))) =
        [ExchangeWithdraw ''X'' ''USDT'' (BN 101) (replicate 20 0x33)]
     \<and> withdraws (db (snd (manageLiability exampleEnv liability6 (exampleBroker [] [])))) =
        [\<lparr>wd_exchangeWithdrawId = ''w1'', wd_exchange = ''X'', wd_currency = ''USDT'',
          wd_amount = BN 101, wd_status = pending\<rparr>]"
    unfolding m
    by (simp add: exchangeWithdraw_def Let_def exampleEnv_def exampleBroker_def exampleChain_def
        insertWithdraw_def)
  ultimately show ?thesis using p by simp
qed

section \<open>The balance snapshot\<close>

lemma assign_fresh: "k \<notin> fst ` set d \<Longrightarrow> assign k v d = d @ [(k, v)]"
  by (induction d) auto

lemma fold_assign:
  "distinct (map fst result) \<Longrightarrow> fst ` set result \<inter> fst ` set acc = {} \<Longrightarrow>
   fold (\<lambda>(currency, v) d. assign currency (f v) d) result acc =
     acc @ map (\<lambda>(currency, v). (currency, f v)) result"
proof (induction result arbitrary: acc)
  case Nil
  then show ?case by simp
next
  case (Cons p result)
  obtain c v where p: "p = (c, v)" by (cases p)
  from Cons.prems have fresh: "c \<notin> fst ` set acc" by (auto simp: p)
  have "fold (\<lambda>(currency, v) d. assign currency (f v) d) result (acc @ [(c, f v)]) =
        (acc @ [(c, f v)]) @ map (\<lambda>(currency, v). (currency, f v)) result"
    using Cons.prems by (intro Cons.IH) (auto simp: p)
  then show ?case by (simp add: p assign_fresh [OF fresh])
qed

lemma copyBalances_map:
  "distinct (map fst result) \<Longrightarrow>
   copyBalances f result = map (\<lambda>(currency, v). (currency, f v)) result"
  by (simp add: copyBalances_def fold_assign)

lemma loop_lastBalances:
  "distinct (map fst balances) \<Longrightarrow> fst ` set balances \<inter> fst ` set lb = {} \<Longrightarrow>
   \<forall>(exchange, r) \<in> set balances. distinct (map fst (er_result r)) \<Longrightarrow>
   snd (sendUpdateBalance_loop E balances (exchanges, lb)) =
     lb @ map (\<lambda>(exchange, r). (exchange, er_result r))
            (filter (\<lambda>(exchange, r). er_error r = None) balances)"
proof (induction balances arbitrary: exchanges lb)
  case Nil
  then show ?case by simp
next
  case (Cons p balances)
  obtain exchange r where p: "p = (exchange, r)" by (cases p)
  show ?case
  proof (cases "er_error r")
    case (Some e)
    have "snd (sendUpdateBalance_loop E balances (exchanges, lb)) =
     lb @ map (\<lambda>(exchange, r). (exchange, er_result r))
            (filter (\<lambda>(exchange, r). er_error r = None) balances)"
      using Cons.prems by (intro Cons.IH) (auto simp: p)
    with Some show ?thesis by (simp add: p)
  next
    case None
    from Cons.prems have fresh: "exchange \<notin> fst ` set lb" by (auto simp: p)
    from Cons.prems have d: "distinct (map fst (er_result r))" by (auto simp: p)
    have "snd (sendUpdateBalance_loop E balances
            (assign exchange (copyBalances (toString E) (er_result r)) exchanges,
             lb @ [(exchange, er_result r)])) =
     (lb @ [(exchange, er_result r)]) @ map (\<lambda>(exchange, r). (exchange, er_result r))
            (filter (\<lambda>(exchange, r). er_error r = None) balances)"
      using Cons.prems by (intro Cons.IH) (auto simp: p)
    with None show ?thesis
      by (simp add: p assign_fresh [OF fresh] copyBalances_map [OF d])
  qed
qed

lemma lastBalances_sendUpdateBalance:
  "lastBalances (snd (sendUpdateBalance E balances this)) =
     snd (sendUpdateBalance_loop E balances ([], []))"
  by (simp add: sendUpdateBalance_def Let_def split: prod.splits)

lemma tryExchange_fst:
  "tryExchange E this amount assetName exchange = Some (ex, a) \<Longrightarrow>
   ex = exchange \<and> exchange \<in> fst ` set (lastBalances this)"
  by (auto simp: tryExchange_def Let_def rev_image_eqI
      split: sum.splits option.splits if_splits dest!: map_of_SomeD)

lemma loop_selects_key:
  "getExchangeForWithdraw_loop E this amount assetName exchanges = Some (ex, a) \<Longrightarrow>
   ex \<in> fst ` set (lastBalances this)"
  by (induction exchanges) (auto split: option.splits dest: tryExchange_fst)

text \<open>
  Claim C10. The balances polled are a dictionary from venue to result, each successful
  result a dictionary from currency to amount (so no key occurs twice). After
  \<^verbatim>\<open>sendUpdateBalance\<close> the snapshot \<^verbatim>\<open>lastBalances\<close> holds exactly the venues whose
  poll succeeded, in the order of the poll, each with its freshly polled amounts, whatever
  the snapshot held before. A venue whose poll returned an error is absent, and
  \<^verbatim>\<open>getExchangeForWithdraw\<close> does not select it as long as the snapshot stays this one.
\<close>

theorem sendUpdateBalance_replaces_snapshot:
  assumes "distinct (map fst balances)"
    and "\<forall>(exchange, r) \<in> set balances. distinct (map fst (er_result r))"
  shows "lastBalances (snd (sendUpdateBalance E balances this)) =
           map (\<lambda>(exchange, r). (exchange, er_result r))
             (filter (\<lambda>(exchange, r). er_error r = None) balances)
       \<and> (\<forall>exchange r later E' amount assetName a.
            (exchange, r) \<in> set balances \<and> er_error r \<noteq> None
            \<and> lastBalances later = lastBalances (snd (sendUpdateBalance E balances this)) \<longrightarrow>
            getExchangeForWithdraw E' later amount assetName \<noteq> Some (exchange, a))"
proof -
  have lb: "lastBalances (snd (sendUpdateBalance E balances this)) =
           map (\<lambda>(exchange, r). (exchange, er_result r))
             (filter (\<lambda>(exchange, r). er_error r = None) balances)"
    using loop_lastBalances [OF assms(1) _ assms(2), of "[]" E "[]"]
    by (simp add: lastBalances_sendUpdateBalance)
  have "getExchangeForWithdraw E' later amount assetName \<noteq> Some (exchange, a)"
    if m: "(exchange, r) \<in> set balances" and e: "er_error r \<noteq> None"
      and l: "lastBalances later = lastBalances (snd (sendUpdateBalance E balances this))"
    for exchange r later E' amount assetName a
  proof
    assume "getExchangeForWithdraw E' later amount assetName = Some (exchange, a)"
    then have "exchange \<in> fst ` set (lastBalances later)"
      unfolding getExchangeForWithdraw_def by (rule loop_selects_key)
    then obtain r' where "(exchange, r') \<in> set balances" and "er_error r' = None"
      by (auto simp: l lb)
    with m e assms(1) show False
      by (metis eq_key_imp_eq_value)
  qed
  with lb show ?thesis by blast
qed

text \<open>
  A snapshot that held 500 USDT for venue Y, and a poll in which X succeeded and Y failed:
  the new snapshot holds X only, and a withdrawal of 100 USDT is not planned on Y.
\<close>

theorem sendUpdateBalance_replaces_snapshot_witness:
  "distinct (map fst polledBalances)
   \<and> lastBalances
       (snd (sendUpdateBalance exampleEnv polledBalances
          ((exampleBroker [] [])\<lparr>lastBalances := [(''Y'', [(''USDT'', BN 500)])]\<rparr>))) =
       [(''X'', [(''USDT'', BN 150), (''ETH'', BN 2)])]
   \<and> getExchangeForWithdraw exampleEnv
       (snd (sendUpdateBalance exampleEnv polledBalances
          ((exampleBroker [] [])\<lparr>lastBalances := [(''Y'', [(''USDT'', BN 500)])]\<rparr>)))
       (BN 100) ''USDT'' \<noteq> Some (''Y'', BN 101)"
proof -
  let ?B = "(exampleBroker [] [])\<lparr>lastBalances := [(''Y'', [(''USDT'', BN 500)])]\<rparr>"
  have d: "distinct (map fst polledBalances)"
    and r: "\<forall>(exchange, r) \<in> set polledBalances. distinct (map fst (er_result r))"
    by (simp_all add: polledBalances_def)
  have y: "(''Y'', \<lparr>er_error = Some (External ''timeout''), er_result = []\<rparr>) \<in> set polledBalances"
    by (simp add: polledBalances_def)
  note t = sendUpdateBalance_replaces_snapshot [OF d r, of exampleEnv ?B]
  have "lastBalances (snd (sendUpdateBalance exampleEnv polledBalances ?B)) =
       [(''X'', [(''USDT'', BN 150), (''ETH'', BN 2)])]"
    using t [THEN conjunct1] by (simp add: polledBalances_def)
  moreover have "getExchangeForWithdraw exampleEnv
       (snd (sendUpdateBalance exampleEnv polledBalances ?B)) (BN 100) ''USDT''
       \<noteq> Some (''Y'', BN 101)"
    using t [THEN conjunct2] y by fastforce
  ultimately show ?thesis using d by simp
qed

section \<open>The hash of an order\<close>

lemma div_mod_bits: "(n::nat) div 256 ^ k mod 256 = take_bit 8 (drop_bit (8 * k) n)"
proof -
  have "(256::nat) ^ k = 2 ^ (8 * k)"
    by (simp add: power_mult)
  then show ?thesis
    by (simp add: take_bit_eq_mod drop_bit_eq_div)
qed

lemma byte_of:
  assumes "k < 8"
  shows "(ucast (drop_bit (8 * k) (of_nat n :: 64 word)) :: 8 word) =
    of_nat (n div 256 ^ k mod 256)"
proof (rule bit_word_eqI)
  fix j assume "j < LENGTH(8)"
  with assms have "8 * k + j < 64" by simp
  then show "bit (ucast (drop_bit (8 * k) (of_nat n :: 64 word)) :: 8 word) j
      \<longleftrightarrow> bit (of_nat (n div 256 ^ k mod 256) :: 8 word) j"
    using \<open>j < LENGTH(8)\<close>
    by (simp add: div_mod_bits bit_simps ac_simps)
qed

lemma toBytesBE_of_nat: "toBytesBE (of_nat n) = uint64_be n"
  unfolding toBytesBE_def uint64_be_def
proof (rule map_cong [OF refl])
  fix k :: nat
  assume "k \<in> set [7, 6, 5, 4, 3, 2, 1, 0]"
  then have "k < 8" by auto
  then show "(ucast (drop_bit (8 * k) (of_nat n :: 64 word)) :: 8 word) =
      of_nat (n div 256 ^ k mod 256)"
    by (rule byte_of)
qed

lemma Long_fromNumber_of_nat:
  assumes "n < 2 ^ 63"
  shows "Long_fromNumber (Num (of_nat n)) = of_nat n"
proof -
  have "(0::rat) \<le> of_nat n" and "- (2 ^ 63) < (0::rat)" by simp_all
  then have a: "\<not> (of_nat n :: rat) \<le> - (2 ^ 63)" by linarith
  have b: "\<not> (of_nat n :: rat) < 0" by simp
  show ?thesis
  proof (cases "(of_nat n :: rat) + 1 \<ge> 2 ^ 63")
    case True
    have "(of_nat (n + 1) :: rat) \<ge> of_nat (2 ^ 63)" using True by simp
    then have "n + 1 \<ge> 2 ^ 63" unfolding of_nat_le_iff .
    with assms have "n = 2 ^ 63 - 1" by simp
    then have "(of_nat n :: 64 word) = 0x7FFFFFFFFFFFFFFF" by simp
    with True a show ?thesis by (simp add: Long_fromNumber_def)
  next
    case False
    with a b show ?thesis by (simp add: Long_fromNumber_def)
  qed
qed

lemma longToHex_of_nat: "n < 2 ^ 63 \<Longrightarrow> longToHex (Num (of_nat n)) = uint64_be n"
  by (simp add: longToHex_def Long_fromNumber_of_nat toBytesBE_of_nat)

lemma uint64_be_byte:
  assumes "uint64_be m = uint64_be n" and "k < 8"
  shows "take_bit 8 (drop_bit (8 * k) m) = take_bit 8 (drop_bit (8 * k) n)"
proof -
  have "k \<in> set [7, 6, 5, 4, 3, 2, 1, 0 :: nat]"
    using assms(2) by (simp del: One_nat_def) arith
  with assms(1) have
    "(of_nat (m div 256 ^ k mod 256) :: 8 word) = of_nat (n div 256 ^ k mod 256)"
    unfolding uint64_be_def map_eq_conv by blast
  then have "unat (of_nat (m div 256 ^ k mod 256) :: 8 word) =
      unat (of_nat (n div 256 ^ k mod 256) :: 8 word)"
    by simp
  then show ?thesis
    by (simp add: unat_of_nat div_mod_bits take_bit_eq_mod)
qed

lemma uint64_be_inj:
  assumes "uint64_be m = uint64_be n" and "m < 2 ^ 64" and "n < 2 ^ 64"
  shows "m = n"
proof (rule bit_eqI)
  fix i
  show "bit m i \<longleftrightarrow> bit n i"
  proof (cases "i < 64")
    case False
    then have le: "(2::nat) ^ 64 \<le> 2 ^ i" by (intro power_increasing) simp_all
    have "m < 2 ^ i" using assms(2) le by (rule less_le_trans)
    moreover have "n < 2 ^ i" using assms(3) le by (rule less_le_trans)
    ultimately show ?thesis by (simp add: bit_iff_odd)
  next
    case True
    define k where "k = i div 8"
    define j where "j = i mod 8"
    have i: "i = 8 * k + j" and j: "j < 8" and k: "k < 8"
      using True by (simp_all add: k_def j_def)
    have "bit (take_bit 8 (drop_bit (8 * k) m)) j \<longleftrightarrow> bit (take_bit 8 (drop_bit (8 * k) n)) j"
      using uint64_be_byte [OF assms(1) k] by simp
    then show ?thesis using j
      by (simp add: bit_take_bit_iff bit_drop_bit_eq i ac_simps)
  qed
qed

lemma length_uint64_be: "length (uint64_be n) = 8"
  by (simp add: uint64_be_def)

lemma isUint63_toNat: "isUint63 x \<Longrightarrow> x = Num (of_nat (toNat x)) \<and> toNat x < 2 ^ 63"
proof (cases x)
  case (Num r)
  assume "isUint63 x"
  with Num have r: "0 \<le> r" "r < 2 ^ 63" "r = of_int \<lfloor>r\<rfloor>" by (simp_all add: isUint63_def)
  from r(1) have f: "0 \<le> \<lfloor>r\<rfloor>" by simp
  then have eq: "(of_nat (nat \<lfloor>r\<rfloor>) :: rat) = r"
    using r(3) by (metis of_int_of_nat_eq int_nat_eq)
  have "(of_nat (nat \<lfloor>r\<rfloor>) :: rat) < of_nat (2 ^ 63)" using r(2) eq by simp
  then have "nat \<lfloor>r\<rfloor> < 2 ^ 63" unfolding of_nat_less_iff .
  with eq Num show ?thesis by (simp add: toNat_def)
next
  case NaN
  assume "isUint63 x"
  with NaN show ?thesis by (simp add: isUint63_def)
next
  case PosInf
  assume "isUint63 x"
  with PosInf show ?thesis by (simp add: isUint63_def)
next
  case NegInf
  assume "isUint63 x"
  with NegInf show ?thesis by (simp add: isUint63_def)
qed

lemma longToHex_isUint63: "isUint63 x \<Longrightarrow> longToHex x = uint64_be (toNat x)"
  using isUint63_toNat [of x] longToHex_of_nat [of "toNat x"] by auto

lemma hashOrder_wellFormed:
  assumes "wellFormed order"
  shows "hashOrder E order = keccak256 E (canonicalForm order)"
proof -
  have "truthy (bo_buySide order) \<longleftrightarrow> bo_buySide order = Num 1"
    using assms by (auto simp: wellFormed_def)
  with assms show ?thesis
    by (simp add: hashOrder_def soliditySha3_def canonicalForm_def wellFormed_def
        longToHex_isUint63)
qed

lemma isUint63_eq:
  assumes "isUint63 x" and "isUint63 y" and "uint64_be (toNat x) = uint64_be (toNat y)"
  shows "x = y"
proof -
  have "toNat x < 2 ^ 64" "toNat y < 2 ^ 64"
    using isUint63_toNat [OF assms(1)] isUint63_toNat [OF assms(2)] by simp_all
  with assms(3) have "toNat x = toNat y" by (rule uint64_be_inj)
  with isUint63_toNat [OF assms(1)] isUint63_toNat [OF assms(2)] show ?thesis by metis
qed

lemma canonicalForm_inj:
  assumes "wellFormed order" and "wellFormed order'"
    and "canonicalForm order = canonicalForm order'"
  shows "hashedFields order = hashedFields order'"
proof -
  from assms have
    "bo_senderAddress order = bo_senderAddress order'"
    "bo_matcherAddress order = bo_matcherAddress order'"
    "bo_baseAsset order = bo_baseAsset order'"
    "bo_quoteAsset order = bo_quoteAsset order'"
    "bo_matcherFeeAsset order = bo_matcherFeeAsset order'"
    "uint64_be (toNat (bo_amount order)) = uint64_be (toNat (bo_amount order'))"
    "uint64_be (toNat (bo_price order)) = uint64_be (toNat (bo_price order'))"
    "uint64_be (toNat (bo_matcherFee order)) = uint64_be (toNat (bo_matcherFee order'))"
    "uint64_be (toNat (bo_nonce order)) = uint64_be (toNat (bo_nonce order'))"
    "uint64_be (toNat (bo_expiration order)) = uint64_be (toNat (bo_expiration order'))"
    "bo_buySide order = bo_buySide order'"
    by (auto simp: canonicalForm_def wellFormed_def length_uint64_be split: if_splits)
  with assms(1,2) show ?thesis
    by (simp add: hashedFields_def wellFormed_def isUint63_eq BlockchainOrder.equality)
qed

text \<open>
  Claim C8, as the code has it. For an order with 20-byte addresses, numeric fields that are
  integers from 0 to \<open>2^63 - 1\<close> and a buySide of 0 or 1, \<^verbatim>\<open>hashOrder\<close> is the keccak-256
  digest of the canonical form: the tag \<open>0x03\<close>, the five addresses, then amount, price,
  matcherFee, nonce and expiration each as a big-endian 8-byte unsigned integer, then buySide
  as one byte. The fields \<^verbatim>\<open>id\<close> and \<^verbatim>\<open>signature\<close> of the order are not hashed: changing
  them leaves the hash unchanged. Two such orders that have the same hash agree on the eleven
  hashed fields, unless keccak-256 collides on their two different canonical forms.
\<close>

theorem hashOrder_canonicalForm:
  "(wellFormed order \<longrightarrow> hashOrder E order = keccak256 E (canonicalForm order))
   \<and> hashOrder E (order\<lparr>bo_id := i, bo_signature := sg\<rparr>) = hashOrder E order
   \<and> (wellFormed order \<and> wellFormed order' \<and> hashOrder E order = hashOrder E order' \<longrightarrow>
        hashedFields order = hashedFields order'
        \<or> (canonicalForm order \<noteq> canonicalForm order'
           \<and> keccak256 E (canonicalForm order) = keccak256 E (canonicalForm order')))"
proof (intro conjI impI)
  assume "wellFormed order"
  then show "hashOrder E order = keccak256 E (canonicalForm order)"
    by (rule hashOrder_wellFormed)
next
  show "hashOrder E (order\<lparr>bo_id := i, bo_signature := sg\<rparr>) = hashOrder E order"
    by (simp add: hashOrder_def)
next
  assume a: "wellFormed order \<and> wellFormed order' \<and> hashOrder E order = hashOrder E order'"
  show "hashedFields order = hashedFields order'
        \<or> (canonicalForm order \<noteq> canonicalForm order'
           \<and> keccak256 E (canonicalForm order) = keccak256 E (canonicalForm order'))"
  proof (cases "canonicalForm order = canonicalForm order'")
    case True
    with a show ?thesis by (simp add: canonicalForm_inj)
  next
    case False
    with a hashOrder_wellFormed [of order E] hashOrder_wellFormed [of order' E]
    show ?thesis by simp
  qed
qed

text \<open>
  The order of scenario S1: its canonical form has 142 bytes, the amount \<open>1000000\<close> is
  encoded as \<open>00 00 00 00 00 0F 42 40\<close>, and the order with another \<^verbatim>\<open>id\<close> has the same
  hash and the same hashed fields.
\<close>

theorem hashOrder_canonicalForm_witness:
  "wellFormed (createBlockchainOrder exampleEnv exampleChain subOrder1 trade1)
   \<and> wellFormed ((createBlockchainOrder exampleEnv exampleChain subOrder1 trade1)\<lparr>bo_id := [1]\<rparr>)
   \<and> hashOrder exampleEnv (createBlockchainOrder exampleEnv exampleChain subOrder1 trade1) =
       keccak256 exampleEnv
         (canonicalForm (createBlockchainOrder exampleEnv exampleChain subOrder1 trade1))
   \<and> hashOrder exampleEnv
        ((createBlockchainOrder exampleEnv exampleChain subOrder1 trade1)\<lparr>bo_id := [1]\<rparr>) =
      hashOrder exampleEnv (createBlockchainOrder exampleEnv exampleChain subOrder1 trade1)
   \<and> hashedFields (createBlockchainOrder exampleEnv exampleChain subOrder1 trade1) =
        hashedFields
          ((createBlockchainOrder exampleEnv exampleChain subOrder1 trade1)\<lparr>bo_id := [1]\<rparr>)
   \<and> length (canonicalForm (createBlockchainOrder exampleEnv exampleChain subOrder1 trade1)) = 142
   \<and> uint64_be 1000000 = [0, 0, 0, 0, 0, 0x0F, 0x42, 0x40]"
proof -
  let ?o = "createBlockchainOrder exampleEnv exampleChain subOrder1 trade1"
  have o: "?o =
     \<lparr>bo_id = [], bo_senderAddress = replicate 20 0x33, bo_matcherAddress = replicate 20 0x11,
      bo_baseAsset = replicate 20 0xB0, bo_quoteAsset = replicate 20 0xC0,
      bo_matcherFeeAsset = replicate 20 0xA0, bo_amount = Num 1000000,
      bo_price = Num 1000000000000, bo_matcherFee = Num 0, bo_nonce = Num 1600000000000,
      bo_expiration = Num 1602505600000, bo_buySide = Num 0, bo_signature = []\<rparr>"
    using binary64_of_int [of 1602505600000]
    by (simp add: createBlockchainOrder_def exampleEnv_def exampleChain_def subOrder1_def
        trade1_def toBaseUnit_S1 counterSide_def DEFAULT_EXPIRATION_def)
  have w: "wellFormed ?o" and w': "wellFormed (?o\<lparr>bo_id := [1]\<rparr>)"
    unfolding o by (simp_all add: wellFormed_def isUint63_def)
  have same: "hashOrder exampleEnv (?o\<lparr>bo_id := [1]\<rparr>) = hashOrder exampleEnv ?o"
    using hashOrder_canonicalForm [where order = ?o and E = exampleEnv and i = "[1]"
        and sg = "bo_signature ?o" and order' = ?o, THEN conjunct2, THEN conjunct1]
    by simp
  have "hashOrder exampleEnv ?o = keccak256 exampleEnv (canonicalForm ?o)"
    using hashOrder_canonicalForm [where order = ?o and E = exampleEnv and i = "[]"
        and sg = "[]" and order' = ?o, THEN conjunct1] w by (rule mp)
  moreover have "hashedFields ?o = hashedFields (?o\<lparr>bo_id := [1]\<rparr>)"
  proof -
    have "canonicalForm ?o = canonicalForm (?o\<lparr>bo_id := [1]\<rparr>)"
      by (simp add: canonicalForm_def)
    with hashOrder_canonicalForm [where order = ?o and E = exampleEnv and i = "[]"
        and sg = "[]" and order' = "?o\<lparr>bo_id := [1]\<rparr>", THEN conjunct2, THEN conjunct2]
      w w' same [symmetric]
    show ?thesis by blast
  qed
  moreover have "length (canonicalForm ?o) = 142"
    unfolding o by (simp add: canonicalForm_def length_uint64_be)
  moreover have "uint64_be 1000000 = [0, 0, 0, 0, 0, 0x0F, 0x42, 0x40]"
    by (simp add: uint64_be_def)
  ultimately show ?thesis using w w' same by simp
qed

text \<open>
  Claim C8 as stated fails: the order of scenario S1 and the same order with another
  \<^verbatim>\<open>signature\<close> differ in one field and have the same hash, whatever keccak-256 computes.
  So do two orders that differ in the amount only, \<open>2^63\<close> and \<open>2^64\<close>: the signed
  \<^verbatim>\<open>Long\<close> saturates, and both amounts are hashed as \<open>7F FF FF FF FF FF FF FF\<close>.
\<close>

theorem signature_change_keeps_hash:
  "(createBlockchainOrder exampleEnv exampleChain subOrder1 trade1)\<lparr>bo_signature := [1]\<rparr> \<noteq>
     createBlockchainOrder exampleEnv exampleChain subOrder1 trade1
   \<and> (\<forall>E. hashOrder E
          ((createBlockchainOrder exampleEnv exampleChain subOrder1 trade1)\<lparr>bo_signature := [1]\<rparr>) =
        hashOrder E (createBlockchainOrder exampleEnv exampleChain subOrder1 trade1))
   \<and> (createBlockchainOrder exampleEnv exampleChain subOrder1 trade1)\<lparr>bo_amount := Num (2 ^ 63)\<rparr> \<noteq>
     (createBlockchainOrder exampleEnv exampleChain subOrder1 trade1)\<lparr>bo_amount := Num (2 ^ 64)\<rparr>
   \<and> (\<forall>E. hashOrder E
          ((createBlockchainOrder exampleEnv exampleChain subOrder1 trade1)\<lparr>bo_amount := Num (2 ^ 63)\<rparr>) =
        hashOrder E
          ((createBlockchainOrder exampleEnv exampleChain subOrder1 trade1)\<lparr>bo_amount := Num (2 ^ 64)\<rparr>))
   \<and> longToHex (Num (2 ^ 63)) = [0x7F, 0xFF, 0xFF, 0xFF, 0xFF, 0xFF, 0xFF, 0xFF]"
proof -
  have sat: "Long_fromNumber (Num (2 ^ 63)) = 0x7FFFFFFFFFFFFFFF"
    "Long_fromNumber (Num (2 ^ 64)) = 0x7FFFFFFFFFFFFFFF"
    by (simp_all add: Long_fromNumber_def)
  have bytes: "longToHex (Num (2 ^ 63)) = [0x7F, 0xFF, 0xFF, 0xFF, 0xFF, 0xFF, 0xFF, 0xFF]"
    unfolding longToHex_def sat by (simp add: toBytesBE_def drop_bit_eq_div)
  have amounts: "(createBlockchainOrder exampleEnv exampleChain subOrder1 trade1)\<lparr>bo_amount := Num (2 ^ 63)\<rparr> \<noteq>
     (createBlockchainOrder exampleEnv exampleChain subOrder1 trade1)\<lparr>bo_amount := Num (2 ^ 64)\<rparr>"
  proof
    assume "(createBlockchainOrder exampleEnv exampleChain subOrder1 trade1)\<lparr>bo_amount := Num (2 ^ 63)\<rparr> =
     (createBlockchainOrder exampleEnv exampleChain subOrder1 trade1)\<lparr>bo_amount := Num (2 ^ 64)\<rparr>"
    then have "bo_amount ((createBlockchainOrder exampleEnv exampleChain subOrder1 trade1)\<lparr>bo_amount := Num (2 ^ 63)\<rparr>) =
     bo_amount ((createBlockchainOrder exampleEnv exampleChain subOrder1 trade1)\<lparr>bo_amount := Num (2 ^ 64)\<rparr>)"
      by (rule arg_cong)
    then show False by simp
  qed
  have same: "hashOrder E
          ((createBlockchainOrder exampleEnv exampleChain subOrder1 trade1)\<lparr>bo_amount := Num (2 ^ 63)\<rparr>) =
        hashOrder E
          ((createBlockchainOrder exampleEnv exampleChain subOrder1 trade1)\<lparr>bo_amount := Num (2 ^ 64)\<rparr>)"
    for E
    by (simp add: hashOrder_def longToHex_def sat [simplified])
  have "bo_signature (createBlockchainOrder exampleEnv exampleChain subOrder1 trade1) = []"
    by (simp add: createBlockchainOrder_def Let_def)
  then have "(createBlockchainOrder exampleEnv exampleChain subOrder1 trade1)\<lparr>bo_signature := [1]\<rparr> \<noteq>
     createBlockchainOrder exampleEnv exampleChain subOrder1 trade1"
    by (metis BlockchainOrder.select_convs(13) BlockchainOrder.surjective
        BlockchainOrder.update_convs(13) list.distinct(1))
  with amounts same bytes show ?thesis by (simp add: hashOrder_def)
qed

end
